theory Spec2Isabelle
  imports Main "HOL-Library.Multiset"
begin

section \<open>Storage: the tables of the booking schema\<close>

text \<open>
  The schema of the migration that creates the core tables.  A UUID is kept as its text.
  The columns \<open>created_at\<close> and \<open>updated_at\<close> (and the trigger that stamps
  \<open>updated_at\<close>) are wall-clock values and are left out.  Reference tables are kept as
  lists of (id, name) rows.
\<close>

type_synonym uuid = string

text \<open>
  A value as JavaScript sees it after \<open>JSON.parse\<close>, with \<open>undefined\<close> for a
  property that is absent.  The handlers only test a number for being zero.
\<close>

datatype jsval =
    JUndefined
  | JNull
  | JBool bool
  | JNum int
  | JStr string
  | JObject "(string \<times> jsval) list"
  | JArray "jsval list"

record seat =
  s_id :: uuid
  s_bus_id :: uuid
  s_seat_number :: int
  s_active :: bool

text \<open>
  \<open>amount\<close> is NUMERIC(10,2), kept in hundredths.  \<open>payment_reference\<close> and
  \<open>receipt_url\<close> are nullable TEXT columns; the model keeps the JSON value the client
  sent (\<open>JNull\<close> for SQL NULL) and does not render it as text.
\<close>

record booking =
  b_id :: uuid
  b_full_name :: string
  b_passenger_class :: string
  b_email :: string
  b_phone :: string
  b_emergency_name :: string
  b_emergency_phone :: string
  b_pickup_point_id :: uuid
  b_destination_id :: uuid
  b_bus_id :: uuid
  b_seat_number :: int
  b_referral_id :: "uuid option"
  b_amount :: int
  b_status :: string
  b_payment_reference :: jsval
  b_receipt_url :: jsval

record db =
  pickup_points :: "(uuid \<times> string) list"
  destinations :: "(uuid \<times> string) list"
  referrals :: "(uuid \<times> string) list"
  buses :: "(uuid \<times> string) list"
  seats :: "seat list"
  bookings :: "booking list"

datatype db_error =
    UniqueViolation string
  | ForeignKeyViolation string
  | NumericValueOutOfRange string
  | RowLevelSecurity string
  | MultipleRows

subsection \<open>Row-level security\<close>

text \<open>
  Every table has row-level security enabled.  The browser talks to the storage as
  \<open>anon\<close> without a session and as \<open>authenticated\<close> with one; the administrative
  pages are reached only with a session, and the webhook uses the service role, which
  row-level security does not bind.  The policies of \<open>bookings\<close>: anyone may INSERT;
  SELECT and UPDATE are granted to \<open>authenticated\<close> only.  The seats table and the
  reference tables may be read by anyone.
\<close>

datatype role = anon | authenticated

definition can_select_bookings :: "role \<Rightarrow> bool" where
  "can_select_bookings r = (r = authenticated)"

text \<open>The rows of \<open>bookings\<close> that a SELECT of the role sees.\<close>

definition visible_bookings :: "role \<Rightarrow> db \<Rightarrow> booking list" where
  "visible_bookings r d = (if can_select_bookings r then bookings d else [])"

subsection \<open>Column types\<close>

text \<open>\<open>seat_number INTEGER\<close> and \<open>amount NUMERIC(10,2)\<close> (in hundredths).\<close>

definition in_integer :: "int \<Rightarrow> bool" where
  "in_integer n = (- 2147483648 \<le> n \<and> n \<le> 2147483647)"

definition in_numeric_10_2 :: "int \<Rightarrow> bool" where
  "in_numeric_10_2 a = (- 9999999999 \<le> a \<and> a \<le> 9999999999)"

subsection \<open>The partial unique index \<open>idx_unique_active_booking\<close>\<close>

text \<open>\<open>WHERE status IN ('pending','paid')\<close>: the rows the index covers.\<close>

definition in_index :: "booking \<Rightarrow> bool" where
  "in_index b = (b_status b = ''pending'' \<or> b_status b = ''paid'')"

text \<open>
  A new row version collides with the index when another row (another primary key) that
  the index covers has the same \<open>(bus_id, seat_number)\<close>.
\<close>

definition index_conflict :: "booking list \<Rightarrow> booking \<Rightarrow> bool" where
  "index_conflict bs n =
     (in_index n \<and>
      list_ex (\<lambda>b. b_id b \<noteq> b_id n \<and> in_index b \<and>
                    b_bus_id b = b_bus_id n \<and> b_seat_number b = b_seat_number n) bs)"

definition has_key :: "(uuid \<times> string) list \<Rightarrow> uuid \<Rightarrow> bool" where
  "has_key tbl k = (k \<in> set (map fst tbl))"

text \<open>
  Writing a new row of \<open>bookings\<close>: the indexes (primary key, then the partial unique
  index) are checked when the row is written; the foreign keys of \<open>pickup_point_id\<close>,
  \<open>destination_id\<close>, \<open>bus_id\<close> and \<open>referral_id\<close> after that.  There is no foreign
  key from \<open>(bus_id, seat_number)\<close> to the seats table.
\<close>

definition insert_booking :: "db \<Rightarrow> booking \<Rightarrow> db_error + db" where
  "insert_booking d n =
     (if list_ex (\<lambda>b. b_id b = b_id n) (bookings d) then Inl (UniqueViolation ''bookings_pkey'')
      else if index_conflict (bookings d) n then Inl (UniqueViolation ''idx_unique_active_booking'')
      else if \<not> has_key (pickup_points d) (b_pickup_point_id n)
        then Inl (ForeignKeyViolation ''bookings_pickup_point_id_fkey'')
      else if \<not> has_key (destinations d) (b_destination_id n)
        then Inl (ForeignKeyViolation ''bookings_destination_id_fkey'')
      else if \<not> has_key (buses d) (b_bus_id n)
        then Inl (ForeignKeyViolation ''bookings_bus_id_fkey'')
      else if (case b_referral_id n of None \<Rightarrow> False | Some r \<Rightarrow> \<not> has_key (referrals d) r)
        then Inl (ForeignKeyViolation ''bookings_referral_id_fkey'')
      else Inr (d\<lparr>bookings := bookings d @ [n]\<rparr>))"

text \<open>
  The statement \<open>INSERT INTO bookings ...\<close> of a role, with or without
  \<open>RETURNING\<close>.  The values are converted to the column types first.  The INSERT
  policy admits every row; with \<open>RETURNING\<close> the new row must also pass the SELECT
  policies of the role, and the statement is aborted when it does not.  Only then is the
  row written.
\<close>

definition insert_statement :: "role \<Rightarrow> bool \<Rightarrow> db \<Rightarrow> booking \<Rightarrow> db_error + db" where
  "insert_statement r returning d n =
     (if \<not> in_integer (b_seat_number n) then Inl (NumericValueOutOfRange ''seat_number'')
      else if \<not> in_numeric_10_2 (b_amount n) then Inl (NumericValueOutOfRange ''amount'')
      else if returning \<and> \<not> can_select_bookings r then Inl (RowLevelSecurity ''bookings'')
      else insert_booking d n)"

text \<open>
  \<open>UPDATE bookings SET ... WHERE id = ref RETURNING ...\<close>, for an update \<open>f\<close> that
  leaves the primary key alone: every new row version is checked against the index; the
  statement either changes all the rows it matches and returns them, or changes nothing.
\<close>

definition update_bookings ::
  "db \<Rightarrow> uuid \<Rightarrow> (booking \<Rightarrow> booking) \<Rightarrow> db_error + (db \<times> booking list)" where
  "update_bookings d ref f =
     (let new = map f (filter (\<lambda>b. b_id b = ref) (bookings d))
      in if list_ex (index_conflict (bookings d)) new
         then Inl (UniqueViolation ''idx_unique_active_booking'')
         else Inr (d\<lparr>bookings := map (\<lambda>b. if b_id b = ref then f b else b) (bookings d)\<rparr>, new))"

text \<open>\<open>.maybeSingle()\<close> of the client: no row is \<open>null\<close>, several rows are an error.\<close>

fun maybeSingle :: "'a list \<Rightarrow> db_error + 'a option" where
  "maybeSingle [] = Inr None"
| "maybeSingle [x] = Inr (Some x)"
| "maybeSingle (x # y # zs) = Inl MultipleRows"

section \<open>The availability view \<open>get_seat_status\<close>\<close>

record seat_status =
  seat_number :: int
  is_active :: bool
  status :: string

text \<open>
  The SQL function: one row per row of \<open>seats\<close> with \<open>bus_id = _bus_id\<close>, in the order
  of \<open>seat_number\<close>; \<open>'taken'\<close> when the subquery finds a booking of that bus and seat
  number with status pending or paid.  The function is not \<open>SECURITY DEFINER\<close>: it runs
  as the role that calls it, and its subquery sees the bookings that role may select.
\<close>

definition seat_taken :: "role \<Rightarrow> db \<Rightarrow> seat \<Rightarrow> bool" where
  "seat_taken r d s =
     list_ex (\<lambda>b. b_bus_id b = s_bus_id s \<and> b_seat_number b = s_seat_number s \<and>
                  (b_status b = ''pending'' \<or> b_status b = ''paid'')) (visible_bookings r d)"

definition status_row :: "role \<Rightarrow> db \<Rightarrow> seat \<Rightarrow> seat_status" where
  "status_row r d s =
     \<lparr>seat_number = s_seat_number s, is_active = s_active s,
      status = (if seat_taken r d s then ''taken'' else ''available'')\<rparr>"

definition get_seat_status :: "role \<Rightarrow> db \<Rightarrow> uuid \<Rightarrow> seat_status list" where
  "get_seat_status r d bus =
     map (status_row r d) (sort_key s_seat_number (filter (\<lambda>s. s_bus_id s = bus) (seats d)))"

section \<open>The booking form\<close>

text \<open>
  The values of the form once the schema has accepted them.  \<open>onSubmit\<close> adds the
  amount held by the form and sends \<open>.insert(payload).select(...)\<close>, an INSERT with
  RETURNING, as the role of the browser; the storage supplies the primary key
  (\<open>gen_random_uuid()\<close>, here the argument \<open>new_id\<close>), the status \<open>'pending'\<close> and
  NULL for the two payment columns.  Any storage error becomes the toast
  "Booking failed"; the handler checks nothing itself before it inserts.
\<close>

record form_values =
  v_full_name :: string
  v_passenger_class :: string
  v_email :: string
  v_phone :: string
  v_emergency_name :: string
  v_emergency_phone :: string
  v_pickup_point_id :: uuid
  v_destination_id :: uuid
  v_referral_id :: "uuid option"
  v_bus_id :: uuid
  v_seat_number :: int

datatype submit_result = BookingCreated | BookingFailed db_error

text \<open>The rows that the foreign keys of a new booking point to exist.\<close>

definition foreign_keys_ok :: "db \<Rightarrow> form_values \<Rightarrow> bool" where
  "foreign_keys_ok d values =
     (has_key (pickup_points d) (v_pickup_point_id values) \<and>
      has_key (destinations d) (v_destination_id values) \<and>
      has_key (buses d) (v_bus_id values) \<and>
      (case v_referral_id values of None \<Rightarrow> True | Some r \<Rightarrow> has_key (referrals d) r))"

definition new_row :: "uuid \<Rightarrow> form_values \<Rightarrow> int \<Rightarrow> booking" where
  "new_row new_id values amount =
     \<lparr>b_id = new_id, b_full_name = v_full_name values,
      b_passenger_class = v_passenger_class values, b_email = v_email values,
      b_phone = v_phone values, b_emergency_name = v_emergency_name values,
      b_emergency_phone = v_emergency_phone values,
      b_pickup_point_id = v_pickup_point_id values,
      b_destination_id = v_destination_id values, b_bus_id = v_bus_id values,
      b_seat_number = v_seat_number values, b_referral_id = v_referral_id values,
      b_amount = amount, b_status = ''pending'',
      b_payment_reference = JNull, b_receipt_url = JNull\<rparr>"

definition onSubmit ::
  "role \<Rightarrow> db \<Rightarrow> uuid \<Rightarrow> form_values \<Rightarrow> int \<Rightarrow> submit_result \<times> db" where
  "onSubmit r d new_id values amount =
     (case insert_statement r True d (new_row new_id values amount) of
        Inl e \<Rightarrow> (BookingFailed e, d)
      | Inr d' \<Rightarrow> (BookingCreated, d'))"

text \<open>
  The seat map draws one button per row of the seat status it was given: the button of a
  seat is disabled when the seat is inactive or taken, and only a click on an enabled
  button puts a seat number into the form (\<open>None\<close>: the click selects nothing).  The
  form loads the seat status when it is opened, when another bus is chosen and after a
  booking was created, not before it submits.
\<close>

definition seat_button_disabled :: "seat_status \<Rightarrow> bool" where
  "seat_button_disabled seat = (\<not> is_active seat \<or> status seat = ''taken'')"

definition select_seat :: "seat_status list \<Rightarrow> int \<Rightarrow> int option" where
  "select_seat seatStatus n =
     (if list_ex (\<lambda>s. seat_number s = n \<and> \<not> seat_button_disabled s) seatStatus
      then Some n else None)"

section \<open>The administrative bookings page\<close>

text \<open>
  The buttons drawn for a booking shown with status \<open>st\<close>, each with the status it
  passes to \<open>updateBookingStatus\<close>: "Mark Paid" and "Cancel" for a pending booking,
  "Restore" for a cancelled one.
\<close>

definition offered_actions :: "string \<Rightarrow> string list" where
  "offered_actions st =
     (if st = ''pending'' then [''paid'', ''cancelled''] else []) @
     (if st = ''cancelled'' then [''pending''] else [])"

datatype toast = ToastSuccess | ToastError

definition updateBookingStatus :: "db \<Rightarrow> uuid \<Rightarrow> string \<Rightarrow> toast \<times> db" where
  "updateBookingStatus d bookingId newStatus =
     (case update_bookings d bookingId (\<lambda>b. b\<lparr>b_status := newStatus\<rparr>) of
        Inl e \<Rightarrow> (ToastError, d)
      | Inr (d', rows) \<Rightarrow> (ToastSuccess, d'))"

section \<open>The administrative seats page\<close>

definition toggleSeatStatus :: "db \<Rightarrow> uuid \<Rightarrow> bool \<Rightarrow> db" where
  "toggleSeatStatus d seatId currentStatus =
     d\<lparr>seats := map (\<lambda>s. if s_id s = seatId then s\<lparr>s_active := \<not> currentStatus\<rparr> else s) (seats d)\<rparr>"

definition toggleAllSeats :: "db \<Rightarrow> uuid \<Rightarrow> bool \<Rightarrow> db" where
  "toggleAllSeats d selectedBusId activate =
     (if selectedBusId = [] then d
      else d\<lparr>seats := map (\<lambda>s. if s_bus_id s = selectedBusId then s\<lparr>s_active := activate\<rparr> else s)
                          (seats d)\<rparr>)"

section \<open>The payment webhook\<close>

text \<open>
  A request: its method and what \<open>req.json()\<close> gives (\<open>None\<close> when the body is not
  JSON, so that the payload stays \<open>{}\<close>).
\<close>

record request =
  req_method :: string
  req_body :: "jsval option"

datatype failure = StorageFailure db_error | TypeError

datatype resp_body = NoBody | BodyOk | BodyError failure

datatype response = Response nat resp_body

text \<open>JavaScript's truthiness, \<open>||\<close> and \<open>??\<close>.\<close>

fun truthy :: "jsval \<Rightarrow> bool" where
  "truthy JUndefined = False"
| "truthy JNull = False"
| "truthy (JBool b) = b"
| "truthy (JNum n) = (n \<noteq> 0)"
| "truthy (JStr s) = (s \<noteq> [])"
| "truthy (JObject kvs) = True"
| "truthy (JArray vs) = True"

definition js_or :: "jsval \<Rightarrow> jsval \<Rightarrow> jsval" where
  "js_or a b = (if truthy a then a else b)"

definition nullish_or :: "jsval \<Rightarrow> jsval \<Rightarrow> jsval" where
  "nullish_or a b = (if a = JUndefined \<or> a = JNull then b else a)"

text \<open>
  Reading a property of a value that is neither \<open>null\<close> nor \<open>undefined\<close>: the own
  property of an object, \<open>undefined\<close> otherwise (none of the names the handler reads is
  a property of a string, a number, a boolean or an array).
\<close>

fun js_prop :: "jsval \<Rightarrow> string \<Rightarrow> jsval" where
  "js_prop (JObject kvs) k = (case map_of kvs k of None \<Rightarrow> JUndefined | Some v \<Rightarrow> v)"
| "js_prop v k = JUndefined"

definition paidStates :: "string list" where
  "paidStates = [''Success'', ''Successful'', ''Completed'', ''PAID'', ''Paid'']"

fun isPaid :: "jsval \<Rightarrow> bool" where
  "isPaid (JStr s) = (s \<in> set paidStates)"
| "isPaid v = False"

definition extract_status :: "jsval \<Rightarrow> jsval" where
  "extract_status payload =
     js_or (js_or (js_or (js_prop payload ''status'') (js_prop payload ''Status''))
                  (js_prop payload ''transactionStatus'')) (js_prop payload ''TransactionStatus'')"

definition extract_reference :: "jsval \<Rightarrow> jsval" where
  "extract_reference payload =
     js_or (js_or (js_or (js_prop payload ''clientReference'') (js_prop payload ''ClientReference''))
                  (js_prop payload ''checkoutId'')) (js_prop payload ''CheckoutId'')"

definition extract_transactionId :: "jsval \<Rightarrow> jsval" where
  "extract_transactionId payload =
     js_or (js_prop payload ''transactionId'') (js_prop payload ''TransactionId'')"

definition extract_receiptUrl :: "jsval \<Rightarrow> jsval" where
  "extract_receiptUrl payload =
     js_or (js_or (js_prop payload ''receiptUrl'') (js_prop payload ''ReceiptUrl''))
           (js_prop payload ''receiptURL'')"

text \<open>
  The object \<open>updates\<close> as a function on the row: \<open>payment_reference\<close> always,
  \<open>status\<close> when the status is a paid one, \<open>receipt_url\<close> when one was sent.
\<close>

definition updates :: "jsval \<Rightarrow> booking \<Rightarrow> booking" where
  "updates payload b =
     (let b1 = b\<lparr>b_payment_reference :=
                   nullish_or (extract_transactionId payload) (extract_reference payload)\<rparr>;
          b2 = (if isPaid (extract_status payload) then b1\<lparr>b_status := ''paid''\<rparr> else b1)
      in if truthy (extract_receiptUrl payload)
         then b2\<lparr>b_receipt_url := extract_receiptUrl payload\<rparr> else b2)"

text \<open>
  The filter \<open>.eq("id", reference)\<close>: a row matches when its id is the text of the
  reference.  The model has no syntax of UUIDs: a reference that is the id of no row
  matches no row here, also where PostgreSQL would refuse to read it as a UUID.
\<close>

fun reference_text :: "jsval \<Rightarrow> uuid option" where
  "reference_text (JStr s) = Some s"
| "reference_text v = None"

definition update_by_reference ::
  "db \<Rightarrow> jsval \<Rightarrow> (booking \<Rightarrow> booking) \<Rightarrow> db_error + (db \<times> booking list)" where
  "update_by_reference d reference f =
     (case reference_text reference of
        None \<Rightarrow> Inr (d, [])
      | Some r \<Rightarrow> update_bookings d r f)"

text \<open>
  The handler of \<open>hubtel-webhook/index.ts\<close>.  Reading \<open>payload.status\<close> of a
  \<open>null\<close> payload throws a TypeError, which the outer \<open>catch\<close> turns into a 500.
\<close>

definition hubtel_webhook :: "db \<Rightarrow> request \<Rightarrow> response \<times> db" where
  "hubtel_webhook d req =
     (if req_method req = ''OPTIONS'' then (Response 200 NoBody, d)
      else
        let payload = (case req_body req of None \<Rightarrow> JObject [] | Some v \<Rightarrow> v)
        in if payload = JNull \<or> payload = JUndefined then (Response 500 (BodyError TypeError), d)
           else if \<not> truthy (extract_reference payload) then (Response 200 BodyOk, d)
           else
             (case update_by_reference d (extract_reference payload) (updates payload) of
                Inl e \<Rightarrow> (Response 500 (BodyError (StorageFailure e)), d)
              | Inr (d', rows) \<Rightarrow>
                  (case maybeSingle rows of
                     Inl e \<Rightarrow> (Response 500 (BodyError (StorageFailure e)), d')
                   | Inr updated \<Rightarrow> (Response 200 BodyOk, d'))))"

section \<open>The payment webhook that sends the confirmation SMS\<close>

text \<open>
  The second handler of the repository is the same handler followed by the scheduling of
  \<open>sendPaidConfirmationSms\<close>.  Numbers are printed in decimal.
\<close>

definition digit :: "nat \<Rightarrow> char" where
  "digit n = ''0123456789'' ! n"

function decimal_acc :: "nat \<Rightarrow> string \<Rightarrow> string" where
  "decimal_acc n acc =
     (if n < 10 then digit n # acc else decimal_acc (n div 10) (digit (n mod 10) # acc))"
  by pat_completeness auto
termination
  by (relation "measure fst") auto

declare decimal_acc.simps [simp del]

definition decimal_nat :: "nat \<Rightarrow> string" where
  "decimal_nat n = decimal_acc n []"

definition decimal_int :: "int \<Rightarrow> string" where
  "decimal_int i = (if 0 \<le> i then decimal_nat (nat i) else CHR ''-'' # decimal_nat (nat (- i)))"

text \<open>\<open>Number(amount).toFixed(2)\<close> of an amount kept in hundredths.\<close>

definition toFixed2 :: "int \<Rightarrow> string" where
  "toFixed2 a =
     (if a < 0 then ''-'' else []) @ decimal_nat (nat \<bar>a\<bar> div 100) @ ''.'' @
     [digit (nat \<bar>a\<bar> mod 100 div 10), digit (nat \<bar>a\<bar> mod 10)]"

definition startsWith :: "string \<Rightarrow> string \<Rightarrow> bool" where
  "startsWith s p = (take (length p) s = p)"

definition normalizeGhanaMsisdn :: "string \<Rightarrow> string option" where
  "normalizeGhanaMsisdn input =
     (if input = [] then None
      else
        let digits = filter (\<lambda>c. c \<in> set ''0123456789+'') input
        in if startsWith digits ''+'' then Some (drop 1 digits)
           else if startsWith digits ''233'' then Some digits
           else if startsWith digits ''0'' \<and> length digits \<ge> 10 then Some (''233'' @ drop 1 digits)
           else Some digits)"

text \<open>\<open>xs.filter(Boolean).join(sep)\<close> on strings.\<close>

fun join :: "string \<Rightarrow> string list \<Rightarrow> string" where
  "join sep [] = []"
| "join sep [x] = x"
| "join sep (x # y # zs) = x @ sep @ join sep (y # zs)"

definition nonempty :: "string list \<Rightarrow> string list" where
  "nonempty xs = filter (\<lambda>x. x \<noteq> []) xs"

text \<open>
  The name of a row looked up by id (\<open>.select("name").eq("id", ...).maybeSingle()\<close>),
  the empty string when the id is empty or no row has it.
\<close>

definition name_of :: "(uuid \<times> string) list \<Rightarrow> uuid \<Rightarrow> string" where
  "name_of tbl k = (if k = [] then [] else case map_of tbl k of None \<Rightarrow> [] | Some n \<Rightarrow> n)"

definition sms_content :: "db \<Rightarrow> uuid \<Rightarrow> booking \<Rightarrow> string" where
  "sms_content d bookingId b =
     (let destName = name_of (destinations d) (b_destination_id b);
          pickName = name_of (pickup_points d) (b_pickup_point_id b);
          ref = take 8 bookingId;
          seat = (if b_seat_number b \<noteq> 0 then ''Seat '' @ decimal_int (b_seat_number b) else []);
          amount = ''GHS '' @ toFixed2 (b_amount b);
          route = join '' -> '' (nonempty [pickName, destName]);
          parts = nonempty
            [''ATT Transport: Payment confirmed.'',
             (if route \<noteq> [] then route @ ''.'' else []),
             (if seat \<noteq> [] then seat @ ''.'' else []),
             (if amount \<noteq> [] then amount @ ''.'' else []),
             ''Ref: '' @ ref @ ''.'',
             ''Show SMS at boarding.'']
      in take 300 (join '' '' parts))"

text \<open>
  The environment of the function and what the SMS gateway does with one request.
  \<open>sendSmsViaHubtel\<close> catches everything and returns nothing: what is left of a call
  is the request it made, if any, and the line it logged.
\<close>

record env =
  HUBTEL_SMS_CLIENT_ID :: "string option"
  HUBTEL_CLIENT_ID :: "string option"
  HUBTEL_SMS_CLIENT_SECRET :: "string option"
  HUBTEL_CLIENT_SECRET :: "string option"
  HUBTEL_SMS_FROM :: "string option"

datatype gateway = Accepts | Rejects | Throws

record sms_request =
  sms_From :: string
  sms_To :: string
  sms_Content :: string

datatype sms_log = CredentialsMissing | SmsSent | SmsSendError | SmsException | NotAttempted

definition env_or :: "string option \<Rightarrow> string option \<Rightarrow> string \<Rightarrow> string" where
  "env_or a b dflt = (case a of Some x \<Rightarrow> x | None \<Rightarrow> (case b of Some y \<Rightarrow> y | None \<Rightarrow> dflt))"

definition sendSmsViaHubtel :: "env \<Rightarrow> gateway \<Rightarrow> string \<Rightarrow> string \<Rightarrow> sms_request option \<times> sms_log" where
  "sendSmsViaHubtel e g to content =
     (let id = env_or (HUBTEL_SMS_CLIENT_ID e) (HUBTEL_CLIENT_ID e) [];
          secret = env_or (HUBTEL_SMS_CLIENT_SECRET e) (HUBTEL_CLIENT_SECRET e) [];
          from = env_or (HUBTEL_SMS_FROM e) None ''ATTTransport''
      in if id = [] \<or> secret = [] then (None, CredentialsMissing)
         else (Some \<lparr>sms_From = from, sms_To = to, sms_Content = content\<rparr>,
               case g of Accepts \<Rightarrow> SmsSent | Rejects \<Rightarrow> SmsSendError | Throws \<Rightarrow> SmsException))"

definition sendPaidConfirmationSms ::
  "db \<Rightarrow> env \<Rightarrow> gateway \<Rightarrow> uuid \<Rightarrow> booking option \<Rightarrow> sms_request option \<times> sms_log" where
  "sendPaidConfirmationSms d e g bookingId booking =
     (let b = (case booking of Some r \<Rightarrow> Some r
               | None \<Rightarrow> (case maybeSingle (filter (\<lambda>r. b_id r = bookingId) (bookings d)) of
                             Inl err \<Rightarrow> None | Inr r \<Rightarrow> r))
      in case b of None \<Rightarrow> (None, NotAttempted)
         | Some r \<Rightarrow>
             (case normalizeGhanaMsisdn (b_phone r) of None \<Rightarrow> (None, NotAttempted)
              | Some to \<Rightarrow>
                  if to = [] then (None, NotAttempted)
                  else sendSmsViaHubtel e g to (sms_content d bookingId r)))"

text \<open>
  The handler: the update as before, then, for a paid status and an updated row, one task
  handed to \<open>EdgeRuntime.waitUntil\<close>; the response is built without waiting for it.
  The result lists the tasks scheduled.
\<close>

definition hubtel_webhook_sms :: "db \<Rightarrow> request \<Rightarrow> response \<times> db \<times> (uuid \<times> booking) list" where
  "hubtel_webhook_sms d req =
     (if req_method req = ''OPTIONS'' then (Response 200 NoBody, d, [])
      else
        let payload = (case req_body req of None \<Rightarrow> JObject [] | Some v \<Rightarrow> v)
        in if payload = JNull \<or> payload = JUndefined then (Response 500 (BodyError TypeError), d, [])
           else if \<not> truthy (extract_reference payload) then (Response 200 BodyOk, d, [])
           else
             (case update_by_reference d (extract_reference payload) (updates payload) of
                Inl e \<Rightarrow> (Response 500 (BodyError (StorageFailure e)), d, [])
              | Inr (d', rows) \<Rightarrow>
                  (case maybeSingle rows of
                     Inl e \<Rightarrow> (Response 500 (BodyError (StorageFailure e)), d', [])
                   | Inr updated \<Rightarrow>
                       (Response 200 BodyOk, d',
                        case updated of
                          None \<Rightarrow> []
                        | Some u \<Rightarrow> if isPaid (extract_status payload) then [(b_id u, u)] else []))))"

text \<open>One request served to the end: the handler, then the tasks it scheduled.\<close>

definition serve ::
  "db \<Rightarrow> env \<Rightarrow> gateway \<Rightarrow> request \<Rightarrow> response \<times> db \<times> (sms_request option \<times> sms_log) list" where
  "serve d e g req =
     (case hubtel_webhook_sms d req of
        (resp, d', tasks) \<Rightarrow>
          (resp, d', map (\<lambda>(i, u). sendPaidConfirmationSms d' e g i (Some u)) tasks))"

section \<open>The system as a whole\<close>

text \<open>
  The statements that the repository sends to the bookings and seats tables, one per
  event; each is a single statement, so concurrent requests are an interleaving of
  events.  The screens that edit destinations, pickup points and buses never write the
  bookings table and are not among the events.
\<close>

datatype event =
    Submit role uuid form_values int
  | AdminUpdate uuid string
  | Webhook request
  | ToggleSeat uuid bool
  | ToggleAll uuid bool

fun step :: "db \<Rightarrow> event \<Rightarrow> db" where
  "step d (Submit r new_id values amount) = snd (onSubmit r d new_id values amount)"
| "step d (AdminUpdate bookingId newStatus) = snd (updateBookingStatus d bookingId newStatus)"
| "step d (Webhook req) = snd (hubtel_webhook d req)"
| "step d (ToggleSeat seatId currentStatus) = toggleSeatStatus d seatId currentStatus"
| "step d (ToggleAll busId activate) = toggleAllSeats d busId activate"

text \<open>The SMS tasks an event schedules: only the webhook with the SMS code schedules any.\<close>

fun sms_tasks :: "db \<Rightarrow> event \<Rightarrow> (uuid \<times> booking) list" where
  "sms_tasks d (Webhook req) = snd (snd (hubtel_webhook_sms d req))"
| "sms_tasks d e = []"

text \<open>The states reached from a storage whose bookings table is still empty.\<close>

inductive reachable :: "db \<Rightarrow> bool" where
  initial: "bookings d = [] \<Longrightarrow> reachable d"
| after: "reachable d \<Longrightarrow> reachable (step d e)"

text \<open>The number of bookings of a bus and seat number that are pending or paid.\<close>

definition active_count :: "db \<Rightarrow> uuid \<Rightarrow> int \<Rightarrow> nat" where
  "active_count d bus n =
     length (filter (\<lambda>b. b_bus_id b = bus \<and> b_seat_number b = n \<and>
                         (b_status b = ''pending'' \<or> b_status b = ''paid'')) (bookings d))"

subsection \<open>Predicates on the storage\<close>

text \<open>
  The state of the bookings table that the two indexes maintain: primary keys are
  distinct, and no row collides with another one in \<open>idx_unique_active_booking\<close>.
\<close>

definition ledger_ok :: "booking list \<Rightarrow> bool" where
  "ledger_ok bs = (distinct (map b_id bs) \<and> (\<forall>b \<in> set bs. \<not> index_conflict bs b))"

text \<open>What the seats table says about a bus and seat number.\<close>

definition seat_inactive :: "db \<Rightarrow> uuid \<Rightarrow> int \<Rightarrow> bool" where
  "seat_inactive d bus n =
     list_ex (\<lambda>s. s_bus_id s = bus \<and> s_seat_number s = n \<and> \<not> s_active s) (seats d)"

definition has_seat_row :: "db \<Rightarrow> uuid \<Rightarrow> int \<Rightarrow> bool" where
  "has_seat_row d bus n = list_ex (\<lambda>s. s_bus_id s = bus \<and> s_seat_number s = n) (seats d)"

text \<open>Another pending or paid booking holds the bus and seat number of the booking.\<close>

definition held_by_other :: "db \<Rightarrow> booking \<Rightarrow> bool" where
  "held_by_other d b =
     list_ex (\<lambda>c. b_id c \<noteq> b_id b \<and> in_index c \<and>
                  b_bus_id c = b_bus_id b \<and> b_seat_number c = b_seat_number b) (bookings d)"

section \<open>Example data\<close>

definition example_booking :: "uuid \<Rightarrow> uuid \<Rightarrow> int \<Rightarrow> string \<Rightarrow> booking" where
  "example_booking i bus n st =
     \<lparr>b_id = i, b_full_name = ''Ama Mensah'', b_passenger_class = ''100'',
      b_email = ''ama@example.com'', b_phone = ''0241234567'',
      b_emergency_name = ''Kofi Mensah'', b_emergency_phone = ''0201234567'',
      b_pickup_point_id = ''P1'', b_destination_id = ''D1'', b_bus_id = bus,
      b_seat_number = n, b_referral_id = None, b_amount = 8000, b_status = st,
      b_payment_reference = JNull, b_receipt_url = JNull\<rparr>"

definition example_values :: "uuid \<Rightarrow> int \<Rightarrow> form_values" where
  "example_values bus n =
     \<lparr>v_full_name = ''Ama Mensah'', v_passenger_class = ''100'',
      v_email = ''ama@example.com'', v_phone = ''0241234567'',
      v_emergency_name = ''Kofi Mensah'', v_emergency_phone = ''0201234567'',
      v_pickup_point_id = ''P1'', v_destination_id = ''D1'', v_referral_id = None,
      v_bus_id = bus, v_seat_number = n\<rparr>"

definition example_db :: "booking list \<Rightarrow> db" where
  "example_db bs =
     \<lparr>pickup_points = [(''P1'', ''Main Campus'')], destinations = [(''D1'', ''Kumasi'')],
      referrals = [], buses = [(''B'', ''ATT-01'')],
      seats = [\<lparr>s_id = ''S3'', s_bus_id = ''B'', s_seat_number = 3, s_active = False\<rparr>,
               \<lparr>s_id = ''S1'', s_bus_id = ''B'', s_seat_number = 1, s_active = True\<rparr>,
               \<lparr>s_id = ''S2'', s_bus_id = ''B'', s_seat_number = 2, s_active = True\<rparr>],
      bookings = bs\<rparr>"

definition paid_request :: "string \<Rightarrow> request" where
  "paid_request ref =
     \<lparr>req_method = ''POST'',
      req_body = Some (JObject [(''Status'', JStr ''Success''), (''ClientReference'', JStr ref),
                                (''TransactionId'', JStr ''T-1'')])\<rparr>"

definition example_env :: env where
  "example_env = \<lparr>HUBTEL_SMS_CLIENT_ID = None, HUBTEL_CLIENT_ID = Some ''id'',
     HUBTEL_SMS_CLIENT_SECRET = None, HUBTEL_CLIENT_SECRET = Some ''secret'',
     HUBTEL_SMS_FROM = None\<rparr>"

section \<open>Properties of the storage and of the ledger\<close>

lemma index_conflict_iff:
  "index_conflict bs n \<longleftrightarrow>
     in_index n \<and> (\<exists>b \<in> set bs. b_id b \<noteq> b_id n \<and> in_index b \<and>
        b_bus_id b = b_bus_id n \<and> b_seat_number b = b_seat_number n)"
  by (simp add: index_conflict_def list_ex_iff)

lemma ledger_ok_Nil: "ledger_ok []"
  by (simp add: ledger_ok_def index_conflict_iff)

lemma ledger_ok_insert:
  assumes "ledger_ok bs" and "b_id n \<notin> b_id ` set bs" and "\<not> index_conflict bs n"
  shows "ledger_ok (bs @ [n])"
proof -
  have "distinct (map b_id (bs @ [n]))"
    using assms(1,2) by (simp add: ledger_ok_def)
  moreover have "\<not> index_conflict (bs @ [n]) b" if b: "b \<in> set (bs @ [n])" for b
  proof (cases "b = n")
    case True
    then show ?thesis using assms(3) by (auto simp: index_conflict_iff)
  next
    case False
    with b have bin: "b \<in> set bs" by simp
    then have nb: "\<not> index_conflict bs b" using assms(1) by (simp add: ledger_ok_def)
    show ?thesis
    proof
      assume c: "index_conflict (bs @ [n]) b"
      with nb have "in_index b" "b_id n \<noteq> b_id b" "in_index n"
        "b_bus_id n = b_bus_id b" "b_seat_number n = b_seat_number b"
        by (auto simp: index_conflict_iff)
      with bin have "index_conflict bs n" unfolding index_conflict_iff by metis
      with assms(3) show False by simp
    qed
  qed
  ultimately show ?thesis by (simp add: ledger_ok_def)
qed

lemma ledger_ok_update:
  assumes ok: "ledger_ok bs" and idf: "\<And>b. b_id (f b) = b_id b"
    and chk: "\<forall>n \<in> set (map f (filter (\<lambda>b. b_id b = ref) bs)). \<not> index_conflict bs n"
  shows "ledger_ok (map (\<lambda>b. if b_id b = ref then f b else b) bs)"
proof -
  let ?g = "\<lambda>b. if b_id b = ref then f b else b"
  have ids: "map b_id (map ?g bs) = map b_id bs"
    by (induction bs) (auto simp: idf)
  have "\<not> index_conflict (map ?g bs) (?g b)" if bin: "b \<in> set bs" for b
  proof
    assume c: "index_conflict (map ?g bs) (?g b)"
    then obtain c0 where c0: "c0 \<in> set bs" "b_id (?g c0) \<noteq> b_id (?g b)" "in_index (?g c0)"
        "in_index (?g b)" "b_bus_id (?g c0) = b_bus_id (?g b)"
        "b_seat_number (?g c0) = b_seat_number (?g b)"
      by (auto simp: index_conflict_iff)
    have idne: "b_id c0 \<noteq> b_id b" using c0(2) by (simp add: idf split: if_splits)
    show False
    proof (cases "b_id b = ref")
      case True
      then have "b_id c0 \<noteq> ref" using idne by simp
      then have "?g c0 = c0" by simp
      with c0 True have "index_conflict bs (f b)"
        by (auto simp: index_conflict_iff idf)
      moreover have "f b \<in> set (map f (filter (\<lambda>b. b_id b = ref) bs))"
        using bin True by auto
      ultimately show False using chk by blast
    next
      case False
      then have gb: "?g b = b" by simp
      show False
      proof (cases "b_id c0 = ref")
        case True
        then have "?g c0 = f c0" by simp
        with c0 gb bin False True have "index_conflict bs (f c0)"
          by (auto simp: index_conflict_iff idf)
        moreover have "f c0 \<in> set (map f (filter (\<lambda>b. b_id b = ref) bs))"
          using c0(1) True by auto
        ultimately show False using chk by blast
      next
        case False
        then have "?g c0 = c0" by simp
        with c0 gb idne have "index_conflict bs b"
          by (auto simp: index_conflict_iff)
        with ok bin show False by (simp add: ledger_ok_def)
      qed
    qed
  qed
  then have "\<forall>b \<in> ?g ` set bs. \<not> index_conflict (map ?g bs) b"
    by (intro ballI) (erule imageE, simp)
  then have "\<forall>b \<in> set (map ?g bs). \<not> index_conflict (map ?g bs) b"
    by (simp only: set_map)
  moreover have "distinct (map b_id (map ?g bs))"
    using ok unfolding ids by (simp add: ledger_ok_def)
  ultimately show ?thesis unfolding ledger_ok_def by blast
qed

lemma insert_statement_Inr:
  "insert_statement r ret d n = Inr d' \<Longrightarrow> insert_booking d n = Inr d'"
  by (auto simp: insert_statement_def split: if_splits)

lemma insert_booking_Inr:
  "insert_booking d n = Inr d' \<Longrightarrow>
     b_id n \<notin> b_id ` set (bookings d) \<and> \<not> index_conflict (bookings d) n \<and>
     d' = d\<lparr>bookings := bookings d @ [n]\<rparr>"
  by (auto simp: insert_booking_def list_ex_iff split: if_splits)

lemma ledger_ok_insert_booking:
  "ledger_ok (bookings d) \<Longrightarrow> insert_booking d n = Inr d' \<Longrightarrow> ledger_ok (bookings d')"
  using insert_booking_Inr[of d n d'] ledger_ok_insert[of "bookings d" n] by simp

lemma ledger_ok_update_bookings:
  "ledger_ok (bookings d) \<Longrightarrow> (\<And>b. b_id (f b) = b_id b) \<Longrightarrow>
   update_bookings d ref f = Inr (d', rows) \<Longrightarrow> ledger_ok (bookings d')"
  by (auto simp: update_bookings_def Let_def list_ex_iff split: if_splits intro!: ledger_ok_update)

lemma updates_id: "b_id (updates payload b) = b_id b"
  by (simp add: updates_def Let_def)

lemma ledger_ok_step: "ledger_ok (bookings d) \<Longrightarrow> ledger_ok (bookings (step d e))"
proof (cases e)
  case (Submit r i v a)
  assume "ledger_ok (bookings d)"
  then show ?thesis using Submit
    by (auto simp: onSubmit_def split: sum.splits
        dest!: insert_statement_Inr dest: ledger_ok_insert_booking)
next
  case (AdminUpdate i st)
  assume "ledger_ok (bookings d)"
  then show ?thesis using AdminUpdate
    by (auto simp: updateBookingStatus_def split: sum.splits dest!: ledger_ok_update_bookings[rotated 2])
next
  case (Webhook req)
  assume "ledger_ok (bookings d)"
  then show ?thesis using Webhook
    by (auto simp: hubtel_webhook_def Let_def update_by_reference_def updates_id
        split: sum.splits option.splits if_splits dest!: ledger_ok_update_bookings[rotated 2])
next
  case (ToggleSeat i c)
  assume "ledger_ok (bookings d)"
  then show ?thesis using ToggleSeat by (simp add: toggleSeatStatus_def)
next
  case (ToggleAll i c)
  assume "ledger_ok (bookings d)"
  then show ?thesis using ToggleAll by (simp add: toggleAllSeats_def)
qed

lemma reachable_ledger_ok: "reachable d \<Longrightarrow> ledger_ok (bookings d)"
  by (induction rule: reachable.induct) (simp_all add: ledger_ok_Nil ledger_ok_step)

lemma filter_at_most_one:
  "distinct xs \<Longrightarrow> (\<forall>x \<in> set xs. \<forall>y \<in> set xs. P x \<and> P y \<longrightarrow> x = y) \<Longrightarrow>
   length (filter P xs) \<le> Suc 0"
proof (induction xs)
  case Nil
  then show ?case by simp
next
  case (Cons a xs)
  show ?case
  proof (cases "P a")
    case True
    have "filter P xs = []"
      using Cons.prems True by (auto simp: filter_empty_conv)
    then show ?thesis using True by simp
  next
    case False
    then show ?thesis using Cons by auto
  qed
qed

lemma ledger_ok_active_count:
  assumes "ledger_ok (bookings d)"
  shows "active_count d B N \<le> 1"
proof -
  let ?P = "\<lambda>b. b_bus_id b = B \<and> b_seat_number b = N \<and>
                 (b_status b = ''pending'' \<or> b_status b = ''paid'')"
  have d: "distinct (map b_id (bookings d))" using assms by (simp add: ledger_ok_def)
  then have inj: "inj_on b_id (set (bookings d))" and dist: "distinct (bookings d)"
    by (simp_all add: distinct_map)
  have "x = y" if "x \<in> set (bookings d)" "y \<in> set (bookings d)" "?P x" "?P y" for x y
  proof (rule ccontr)
    assume "x \<noteq> y"
    then have "b_id x \<noteq> b_id y" using inj that(1,2) by (auto dest: inj_onD)
    then have "index_conflict (bookings d) y"
      using that by (auto simp: index_conflict_iff in_index_def)
    then show False using assms that(2) by (simp add: ledger_ok_def)
  qed
  then have "length (filter ?P (bookings d)) \<le> Suc 0"
    using dist by (intro filter_at_most_one) blast+
  then show ?thesis by (simp add: active_count_def)
qed

lemma active_count_0_no_conflict:
  assumes "active_count d (b_bus_id n) (b_seat_number n) = 0"
  shows "\<not> index_conflict (bookings d) n"
proof
  assume "index_conflict (bookings d) n"
  then obtain b where "b \<in> set (bookings d)" "in_index b" "b_bus_id b = b_bus_id n"
      "b_seat_number b = b_seat_number n"
    by (auto simp: index_conflict_iff)
  then have "filter (\<lambda>b. b_bus_id b = b_bus_id n \<and> b_seat_number b = b_seat_number n \<and>
                         (b_status b = ''pending'' \<or> b_status b = ''paid'')) (bookings d) \<noteq> []"
    by (auto simp: filter_empty_conv in_index_def)
  with assms show False by (simp add: active_count_def)
qed

lemma insert_booking_row:
  assumes "i \<notin> b_id ` set (bookings d)" and "foreign_keys_ok d v"
    and "\<not> index_conflict (bookings d) (new_row i v a)"
  shows "insert_booking d (new_row i v a) = Inr (d\<lparr>bookings := bookings d @ [new_row i v a]\<rparr>)"
proof -
  have "\<not> list_ex (\<lambda>b. b_id b = b_id (new_row i v a)) (bookings d)"
    using assms(1) by (auto simp: list_ex_iff new_row_def)
  moreover have "has_key (pickup_points d) (b_pickup_point_id (new_row i v a))"
    "has_key (destinations d) (b_destination_id (new_row i v a))"
    "has_key (buses d) (b_bus_id (new_row i v a))"
    "\<not> (case b_referral_id (new_row i v a) of None \<Rightarrow> False | Some r \<Rightarrow> \<not> has_key (referrals d) r)"
    using assms(2) by (auto simp: foreign_keys_ok_def new_row_def split: option.splits)
  ultimately show ?thesis
    using assms(3) by (simp add: insert_booking_def)
qed

lemma insert_statement_row:
  assumes "in_integer (v_seat_number v)" and "in_numeric_10_2 a"
    and "ret \<longrightarrow> can_select_bookings r"
    and "i \<notin> b_id ` set (bookings d)" and "foreign_keys_ok d v"
    and "\<not> index_conflict (bookings d) (new_row i v a)"
  shows "insert_statement r ret d (new_row i v a) =
           Inr (d\<lparr>bookings := bookings d @ [new_row i v a]\<rparr>)"
proof -
  have "b_seat_number (new_row i v a) = v_seat_number v" "b_amount (new_row i v a) = a"
    by (simp_all add: new_row_def)
  then show ?thesis
    using assms(1,2,3) insert_booking_row[OF assms(4,5,6)] by (auto simp: insert_statement_def)
qed

lemma onSubmit_created:
  assumes "can_select_bookings r" and "in_integer (v_seat_number v)" and "in_numeric_10_2 a"
    and "i \<notin> b_id ` set (bookings d)" and "foreign_keys_ok d v"
    and "\<not> index_conflict (bookings d) (new_row i v a)"
  shows "onSubmit r d i v a = (BookingCreated, d\<lparr>bookings := bookings d @ [new_row i v a]\<rparr>)"
  using insert_statement_row[of v a True r i d] assms by (simp add: onSubmit_def)

lemma onSubmit_cases:
  "onSubmit r d i v a = (BookingCreated, d\<lparr>bookings := bookings d @ [new_row i v a]\<rparr>) \<or>
   (\<exists>e. onSubmit r d i v a = (BookingFailed e, d))"
  by (auto simp: onSubmit_def insert_statement_def insert_booking_def)

lemma onSubmit_without_select:
  assumes "\<not> can_select_bookings r"
  shows "fst (onSubmit r d i v a) \<noteq> BookingCreated \<and> snd (onSubmit r d i v a) = d \<and>
         (in_integer (v_seat_number v) \<and> in_numeric_10_2 a \<longrightarrow>
            onSubmit r d i v a = (BookingFailed (RowLevelSecurity ''bookings''), d))"
  using assms by (simp add: onSubmit_def insert_statement_def new_row_def)

lemma second_row_conflict:
  assumes "v_bus_id v1 = v_bus_id v2" "v_seat_number v1 = v_seat_number v2" "i1 \<noteq> i2"
    and "i2 \<notin> b_id ` set (bookings d)"
  shows "insert_booking (d\<lparr>bookings := bookings d @ [new_row i1 v1 a1]\<rparr>) (new_row i2 v2 a2) =
           Inl (UniqueViolation ''idx_unique_active_booking'')"
proof -
  let ?d1 = "d\<lparr>bookings := bookings d @ [new_row i1 v1 a1]\<rparr>"
  have "\<not> list_ex (\<lambda>b. b_id b = b_id (new_row i2 v2 a2)) (bookings ?d1)"
    using assms(3,4) by (auto simp: list_ex_iff new_row_def)
  moreover have "index_conflict (bookings ?d1) (new_row i2 v2 a2)"
    using assms(1,2,3) by (auto simp: index_conflict_iff in_index_def new_row_def)
  ultimately show ?thesis by (simp add: insert_booking_def)
qed

lemma insert_statement_second_rejected:
  assumes "v_bus_id v1 = v_bus_id v2" "v_seat_number v1 = v_seat_number v2" "i1 \<noteq> i2"
    and "i2 \<notin> b_id ` set (bookings d)"
    and "in_integer (v_seat_number v2)" and "in_numeric_10_2 a2"
    and "ret \<longrightarrow> can_select_bookings r"
  shows "insert_statement r ret (d\<lparr>bookings := bookings d @ [new_row i1 v1 a1]\<rparr>)
           (new_row i2 v2 a2) = Inl (UniqueViolation ''idx_unique_active_booking'')"
proof -
  have "b_seat_number (new_row i2 v2 a2) = v_seat_number v2" "b_amount (new_row i2 v2 a2) = a2"
    by (simp_all add: new_row_def)
  then show ?thesis
    using assms(5,6,7) second_row_conflict[OF assms(1,2,3,4)] by (auto simp: insert_statement_def)
qed

lemma onSubmit_second_rejected:
  assumes "v_bus_id v1 = v_bus_id v2" "v_seat_number v1 = v_seat_number v2" "i1 \<noteq> i2"
    and "i2 \<notin> b_id ` set (bookings d)"
    and "in_integer (v_seat_number v2)" and "in_numeric_10_2 a2" and "can_select_bookings r"
  shows "onSubmit r (d\<lparr>bookings := bookings d @ [new_row i1 v1 a1]\<rparr>) i2 v2 a2 =
           (BookingFailed (UniqueViolation ''idx_unique_active_booking''),
            d\<lparr>bookings := bookings d @ [new_row i1 v1 a1]\<rparr>)"
  using insert_statement_second_rejected[OF assms(1,2,3,4,5,6), of True r a1] assms(7)
  by (simp add: onSubmit_def)

lemma onSubmit_not_both:
  assumes "v_bus_id v1 = v_bus_id v2" "v_seat_number v1 = v_seat_number v2"
  shows "\<not> (fst (onSubmit r1 d i1 v1 a1) = BookingCreated \<and>
            fst (onSubmit r2 (snd (onSubmit r1 d i1 v1 a1)) i2 v2 a2) = BookingCreated)"
proof
  assume a: "fst (onSubmit r1 d i1 v1 a1) = BookingCreated \<and>
            fst (onSubmit r2 (snd (onSubmit r1 d i1 v1 a1)) i2 v2 a2) = BookingCreated"
  let ?d1 = "d\<lparr>bookings := bookings d @ [new_row i1 v1 a1]\<rparr>"
  from a onSubmit_cases[of r1 d i1 v1 a1] have 1: "onSubmit r1 d i1 v1 a1 = (BookingCreated, ?d1)"
    by auto
  have "list_ex (\<lambda>b. b_id b = b_id (new_row i2 v2 a2)) (bookings ?d1) \<or>
        index_conflict (bookings ?d1) (new_row i2 v2 a2)"
    using assms by (auto simp: list_ex_iff index_conflict_iff in_index_def new_row_def)
  then have "fst (onSubmit r2 ?d1 i2 v2 a2) \<noteq> BookingCreated"
    by (auto simp: onSubmit_def insert_statement_def insert_booking_def)
  with a 1 show False by simp
qed

lemma seat_taken_iff:
  "seat_taken r d s \<longleftrightarrow>
     (\<exists>b \<in> set (visible_bookings r d). b_bus_id b = s_bus_id s \<and>
        b_seat_number b = s_seat_number s \<and> b_status b \<in> {''pending'', ''paid''})"
  by (auto simp: seat_taken_def list_ex_iff)

lemma example_db_bookings [simp]: "bookings (example_db bs) = bs"
  by (simp add: example_db_def)

lemma example_db_update [simp]: "(example_db bs)\<lparr>bookings := bs'\<rparr> = example_db bs'"
  by (simp add: example_db_def)

lemma example_foreign_keys_ok [simp]: "foreign_keys_ok (example_db bs) (example_values ''B'' n)"
  by (simp add: foreign_keys_ok_def example_db_def example_values_def has_key_def)

lemma example_values_sel [simp]:
  "v_bus_id (example_values bus n) = bus" "v_seat_number (example_values bus n) = n"
  by (simp_all add: example_values_def)

section \<open>The seat allocation invariant\<close>

text \<open>
  Claim C1.  In every state reached from an empty bookings table by booking submissions
  of any role, administrative status updates, webhook deliveries and seat toggles, in
  any order, a bus and seat number have at most one booking that is pending or paid.
  Each booking attempt is one INSERT, and the partial unique index is checked when the
  row is written, so two racing attempts for the same bus and seat are the two attempts
  in one order or the other, and they never both create a booking.  When the seat is
  free, the rows referred to exist, the values fit their columns and the generated ids
  are new, the INSERT of the first attempt writes a pending booking and that of the
  second is rejected by \<open>idx_unique_active_booking\<close>; so do two submissions of the form
  in a session that may read bookings.  The form without a session is the case where the
  claim fails: its INSERT asks for the new row back, the role may not select it, both
  attempts are aborted by row-level security and no booking is created.
\<close>

theorem unique_active_booking:
  "reachable d \<Longrightarrow>
     (\<forall>B N. active_count d B N \<le> 1) \<and>
     (v_bus_id v1 = v_bus_id v2 \<and> v_seat_number v1 = v_seat_number v2 \<longrightarrow>
        \<not> (fst (onSubmit r1 d i1 v1 a1) = BookingCreated \<and>
           fst (onSubmit r2 (snd (onSubmit r1 d i1 v1 a1)) i2 v2 a2) = BookingCreated)) \<and>
     (v_bus_id v1 = v_bus_id v2 \<and> v_seat_number v1 = v_seat_number v2 \<and>
      active_count d (v_bus_id v1) (v_seat_number v1) = 0 \<and>
      foreign_keys_ok d v1 \<and> foreign_keys_ok d v2 \<and>
      in_integer (v_seat_number v1) \<and> in_numeric_10_2 a1 \<and> in_numeric_10_2 a2 \<and>
      i1 \<notin> b_id ` set (bookings d) \<and> i2 \<notin> b_id ` set (bookings d) \<and> i1 \<noteq> i2 \<longrightarrow>
        insert_statement r1 False d (new_row i1 v1 a1) =
          Inr (d\<lparr>bookings := bookings d @ [new_row i1 v1 a1]\<rparr>) \<and>
        insert_statement r2 False (d\<lparr>bookings := bookings d @ [new_row i1 v1 a1]\<rparr>)
          (new_row i2 v2 a2) = Inl (UniqueViolation ''idx_unique_active_booking'') \<and>
        b_status (new_row i1 v1 a1) = ''pending'' \<and>
        (can_select_bookings r1 \<and> can_select_bookings r2 \<longrightarrow>
           onSubmit r1 d i1 v1 a1 =
             (BookingCreated, d\<lparr>bookings := bookings d @ [new_row i1 v1 a1]\<rparr>) \<and>
           onSubmit r2 (snd (onSubmit r1 d i1 v1 a1)) i2 v2 a2 =
             (BookingFailed (UniqueViolation ''idx_unique_active_booking''),
              snd (onSubmit r1 d i1 v1 a1))) \<and>
        (\<not> can_select_bookings r1 \<and> \<not> can_select_bookings r2 \<longrightarrow>
           onSubmit r1 d i1 v1 a1 = (BookingFailed (RowLevelSecurity ''bookings''), d) \<and>
           onSubmit r2 (snd (onSubmit r1 d i1 v1 a1)) i2 v2 a2 =
             (BookingFailed (RowLevelSecurity ''bookings''), d)))"
proof (intro conjI allI impI)
  assume r: "reachable d"
  show "active_count d B N \<le> 1" for B N
    using r by (intro ledger_ok_active_count reachable_ledger_ok)
next
  assume "v_bus_id v1 = v_bus_id v2 \<and> v_seat_number v1 = v_seat_number v2"
  then show "\<not> (fst (onSubmit r1 d i1 v1 a1) = BookingCreated \<and>
           fst (onSubmit r2 (snd (onSubmit r1 d i1 v1 a1)) i2 v2 a2) = BookingCreated)"
    using onSubmit_not_both by blast
next
  assume h: "v_bus_id v1 = v_bus_id v2 \<and> v_seat_number v1 = v_seat_number v2 \<and>
      active_count d (v_bus_id v1) (v_seat_number v1) = 0 \<and>
      foreign_keys_ok d v1 \<and> foreign_keys_ok d v2 \<and>
      in_integer (v_seat_number v1) \<and> in_numeric_10_2 a1 \<and> in_numeric_10_2 a2 \<and>
      i1 \<notin> b_id ` set (bookings d) \<and> i2 \<notin> b_id ` set (bookings d) \<and> i1 \<noteq> i2"
  then have "active_count d (v_bus_id v1) (v_seat_number v1) = 0"
    by blast
  then have "active_count d (b_bus_id (new_row i1 v1 a1)) (b_seat_number (new_row i1 v1 a1)) = 0"
    by (simp add: new_row_def)
  then have nc: "\<not> index_conflict (bookings d) (new_row i1 v1 a1)"
    by (rule active_count_0_no_conflict)
  from h have e1: "v_bus_id v1 = v_bus_id v2" and e2: "v_seat_number v1 = v_seat_number v2"
    and f1: "foreign_keys_ok d v1" and f2: "foreign_keys_ok d v2"
    and g1: "in_integer (v_seat_number v1)" and n1: "in_numeric_10_2 a1"
    and n2: "in_numeric_10_2 a2" and k1: "i1 \<notin> b_id ` set (bookings d)"
    and k2: "i2 \<notin> b_id ` set (bookings d)" and ne: "i1 \<noteq> i2"
    by blast+
  from e2 g1 have g2: "in_integer (v_seat_number v2)" by simp
  show "insert_statement r1 False d (new_row i1 v1 a1) =
          Inr (d\<lparr>bookings := bookings d @ [new_row i1 v1 a1]\<rparr>)"
    by (rule insert_statement_row[OF g1 n1 _ k1 f1 nc]) simp
  show "insert_statement r2 False (d\<lparr>bookings := bookings d @ [new_row i1 v1 a1]\<rparr>)
          (new_row i2 v2 a2) = Inl (UniqueViolation ''idx_unique_active_booking'')"
    by (rule insert_statement_second_rejected[OF e1 e2 ne k2 g2 n2]) simp
  show "b_status (new_row i1 v1 a1) = ''pending''"
    by (simp add: new_row_def)
  {
    assume c: "can_select_bookings r1 \<and> can_select_bookings r2"
    then have c1: "can_select_bookings r1" and c2: "can_select_bookings r2" by blast+
    show 1: "onSubmit r1 d i1 v1 a1 =
        (BookingCreated, d\<lparr>bookings := bookings d @ [new_row i1 v1 a1]\<rparr>)"
      by (rule onSubmit_created[OF c1 g1 n1 k1 f1 nc])
    show "onSubmit r2 (snd (onSubmit r1 d i1 v1 a1)) i2 v2 a2 =
          (BookingFailed (UniqueViolation ''idx_unique_active_booking''),
           snd (onSubmit r1 d i1 v1 a1))"
      unfolding 1 snd_conv by (rule onSubmit_second_rejected[OF e1 e2 ne k2 g2 n2 c2])
  }
  {
    assume c: "\<not> can_select_bookings r1 \<and> \<not> can_select_bookings r2"
    then have c1: "\<not> can_select_bookings r1" and c2: "\<not> can_select_bookings r2" by blast+
    show 1: "onSubmit r1 d i1 v1 a1 = (BookingFailed (RowLevelSecurity ''bookings''), d)"
      using onSubmit_without_select[OF c1, of d i1 v1 a1] g1 n1 by simp
    show "onSubmit r2 (snd (onSubmit r1 d i1 v1 a1)) i2 v2 a2 =
          (BookingFailed (RowLevelSecurity ''bookings''), d)"
      unfolding 1 snd_conv using onSubmit_without_select[OF c2, of d i2 v2 a2] g2 n2 by simp
  }
qed

theorem unique_active_booking_witness:
  "reachable (example_db []) \<and>
   active_count (example_db []) ''B'' 5 \<le> 1 \<and>
   onSubmit authenticated (example_db []) ''K1'' (example_values ''B'' 5) 8000 =
     (BookingCreated, example_db [new_row ''K1'' (example_values ''B'' 5) 8000]) \<and>
   onSubmit authenticated (example_db [new_row ''K1'' (example_values ''B'' 5) 8000]) ''K2''
       (example_values ''B'' 5) 8000 =
     (BookingFailed (UniqueViolation ''idx_unique_active_booking''),
      example_db [new_row ''K1'' (example_values ''B'' 5) 8000]) \<and>
   onSubmit anon (example_db []) ''K1'' (example_values ''B'' 5) 8000 =
     (BookingFailed (RowLevelSecurity ''bookings''), example_db []) \<and>
   onSubmit anon (example_db []) ''K2'' (example_values ''B'' 5) 8000 =
     (BookingFailed (RowLevelSecurity ''bookings''), example_db [])"
proof -
  have r: "reachable (example_db [])"
    by (rule reachable.initial) simp
  have h: "v_bus_id (example_values ''B'' 5) = v_bus_id (example_values ''B'' 5) \<and>
      v_seat_number (example_values ''B'' 5) = v_seat_number (example_values ''B'' 5) \<and>
      active_count (example_db []) (v_bus_id (example_values ''B'' 5))
        (v_seat_number (example_values ''B'' 5)) = 0 \<and>
      foreign_keys_ok (example_db []) (example_values ''B'' 5) \<and>
      foreign_keys_ok (example_db []) (example_values ''B'' 5) \<and>
      in_integer (v_seat_number (example_values ''B'' 5)) \<and>
      in_numeric_10_2 8000 \<and> in_numeric_10_2 8000 \<and>
      ''K1'' \<notin> b_id ` set (bookings (example_db [])) \<and>
      ''K2'' \<notin> b_id ` set (bookings (example_db [])) \<and> ''K1'' \<noteq> ''K2''"
    by (simp add: active_count_def in_integer_def in_numeric_10_2_def)
  have ca: "can_select_bookings authenticated \<and> can_select_bookings authenticated"
    and cn: "\<not> can_select_bookings anon \<and> \<not> can_select_bookings anon"
    by (simp_all add: can_select_bookings_def)
  note ta = unique_active_booking[OF r, of "example_values ''B'' 5" "example_values ''B'' 5"
      authenticated "''K1''" 8000 authenticated "''K2''" 8000]
  note tn = unique_active_booking[OF r, of "example_values ''B'' 5" "example_values ''B'' 5"
      anon "''K1''" 8000 anon "''K2''" 8000]
  have c1: "onSubmit authenticated (example_db []) ''K1'' (example_values ''B'' 5) 8000 =
     (BookingCreated, example_db [new_row ''K1'' (example_values ''B'' 5) 8000])"
    using ta h ca by simp
  have c2: "onSubmit authenticated
       (snd (onSubmit authenticated (example_db []) ''K1'' (example_values ''B'' 5) 8000)) ''K2''
       (example_values ''B'' 5) 8000 =
     (BookingFailed (UniqueViolation ''idx_unique_active_booking''),
      snd (onSubmit authenticated (example_db []) ''K1'' (example_values ''B'' 5) 8000))"
    using ta h ca by blast
  have c3: "active_count (example_db []) ''B'' 5 \<le> 1"
    using ta by blast
  have n1: "onSubmit anon (example_db []) ''K1'' (example_values ''B'' 5) 8000 =
     (BookingFailed (RowLevelSecurity ''bookings''), example_db [])"
    using tn h cn by blast
  have n2: "onSubmit anon (snd (onSubmit anon (example_db []) ''K1'' (example_values ''B'' 5) 8000))
       ''K2'' (example_values ''B'' 5) 8000 =
     (BookingFailed (RowLevelSecurity ''bookings''), example_db [])"
    using tn h cn by blast
  show ?thesis using r c1 c2[unfolded c1 snd_conv] c3 n1 n2[unfolded n1 snd_conv] by simp
qed

section \<open>The availability view\<close>

lemma get_seat_status_numbers:
  "seat_number ` set (get_seat_status r d B) =
     s_seat_number ` {s \<in> set (seats d). s_bus_id s = B}"
  by (auto simp: get_seat_status_def status_row_def image_iff)

lemma get_seat_status_example:
  "get_seat_status authenticated (example_db [example_booking ''K1'' ''B'' 1 ''paid'']) ''B'' =
       [\<lparr>seat_number = 1, is_active = True, status = ''taken''\<rparr>,
        \<lparr>seat_number = 2, is_active = True, status = ''available''\<rparr>,
        \<lparr>seat_number = 3, is_active = False, status = ''available''\<rparr>]"
  "get_seat_status anon (example_db [example_booking ''K1'' ''B'' 1 ''paid'']) ''B'' =
       [\<lparr>seat_number = 1, is_active = True, status = ''available''\<rparr>,
        \<lparr>seat_number = 2, is_active = True, status = ''available''\<rparr>,
        \<lparr>seat_number = 3, is_active = False, status = ''available''\<rparr>]"
  by (simp_all add: get_seat_status_def example_db_def example_booking_def status_row_def
      seat_taken_def visible_bookings_def can_select_bookings_def)

text \<open>
  Claim C2.  For every role, \<open>get_seat_status\<close> lists the seats of the bus in ascending
  order of seat number, one row per seat of the bus with that seat's number and active
  flag, whether the seat is active or not; a row says \<open>taken\<close> exactly when a pending
  or paid booking of that bus and seat number is among the bookings the calling role may
  select, and \<open>available\<close> exactly when none is.  A role that may select bookings sees
  them all, and for it the claim holds: for seats 1 and 2 active, seat 3 inactive and one
  paid booking on seat 1 the result is (1, true, taken), (2, true, available),
  (3, false, available).  A caller without a session sees no booking: for it every seat is
  reported available, and the same storage gives (1, true, available), (2, true,
  available), (3, false, available).  There the claim fails.
\<close>

theorem get_seat_status_correct:
  "sorted (map seat_number (get_seat_status ro d B))
   \<and> mset (map (\<lambda>r. (seat_number r, is_active r)) (get_seat_status ro d B))
       = mset (map (\<lambda>s. (s_seat_number s, s_active s)) (filter (\<lambda>s. s_bus_id s = B) (seats d)))
   \<and> (\<forall>r \<in> set (get_seat_status ro d B).
         (status r = ''taken'' \<longleftrightarrow>
            (\<exists>b \<in> set (visible_bookings ro d). b_bus_id b = B \<and> b_seat_number b = seat_number r \<and>
               b_status b \<in> {''pending'', ''paid''}))
         \<and> (status r = ''available'' \<longleftrightarrow>
            \<not> (\<exists>b \<in> set (visible_bookings ro d). b_bus_id b = B \<and> b_seat_number b = seat_number r \<and>
               b_status b \<in> {''pending'', ''paid''})))
   \<and> (can_select_bookings ro \<longrightarrow> visible_bookings ro d = bookings d)
   \<and> (\<not> can_select_bookings ro \<longrightarrow>
         (\<forall>r \<in> set (get_seat_status ro d B). status r = ''available''))
   \<and> can_select_bookings authenticated \<and> \<not> can_select_bookings anon
   \<and> get_seat_status authenticated (example_db [example_booking ''K1'' ''B'' 1 ''paid'']) ''B'' =
       [\<lparr>seat_number = 1, is_active = True, status = ''taken''\<rparr>,
        \<lparr>seat_number = 2, is_active = True, status = ''available''\<rparr>,
        \<lparr>seat_number = 3, is_active = False, status = ''available''\<rparr>]
   \<and> get_seat_status anon (example_db [example_booking ''K1'' ''B'' 1 ''paid'']) ''B'' =
       [\<lparr>seat_number = 1, is_active = True, status = ''available''\<rparr>,
        \<lparr>seat_number = 2, is_active = True, status = ''available''\<rparr>,
        \<lparr>seat_number = 3, is_active = False, status = ''available''\<rparr>]"
proof (intro conjI ballI impI)
  let ?ss = "sort_key s_seat_number (filter (\<lambda>s. s_bus_id s = B) (seats d))"
  have m: "map seat_number (get_seat_status ro d B) = map s_seat_number ?ss"
    by (simp add: get_seat_status_def status_row_def comp_def)
  show "sorted (map seat_number (get_seat_status ro d B))"
    unfolding m by (rule sorted_sort_key)
  have "map (\<lambda>r. (seat_number r, is_active r)) (get_seat_status ro d B)
          = map (\<lambda>s. (s_seat_number s, s_active s)) ?ss"
    by (simp add: get_seat_status_def status_row_def comp_def)
  then show "mset (map (\<lambda>r. (seat_number r, is_active r)) (get_seat_status ro d B))
       = mset (map (\<lambda>s. (s_seat_number s, s_active s)) (filter (\<lambda>s. s_bus_id s = B) (seats d)))"
    by simp
  show "can_select_bookings authenticated" "\<not> can_select_bookings anon"
    by (simp_all add: can_select_bookings_def)
  show "get_seat_status authenticated (example_db [example_booking ''K1'' ''B'' 1 ''paid'']) ''B'' =
       [\<lparr>seat_number = 1, is_active = True, status = ''taken''\<rparr>,
        \<lparr>seat_number = 2, is_active = True, status = ''available''\<rparr>,
        \<lparr>seat_number = 3, is_active = False, status = ''available''\<rparr>]"
    by (rule get_seat_status_example)
  show "get_seat_status anon (example_db [example_booking ''K1'' ''B'' 1 ''paid'']) ''B'' =
       [\<lparr>seat_number = 1, is_active = True, status = ''available''\<rparr>,
        \<lparr>seat_number = 2, is_active = True, status = ''available''\<rparr>,
        \<lparr>seat_number = 3, is_active = False, status = ''available''\<rparr>]"
    by (rule get_seat_status_example)
next
  fix r assume r: "r \<in> set (get_seat_status ro d B)"
  then obtain s where s: "s \<in> set (seats d)" "s_bus_id s = B" "r = status_row ro d s"
    by (auto simp: get_seat_status_def)
  show "status r = ''taken'' \<longleftrightarrow>
            (\<exists>b \<in> set (visible_bookings ro d). b_bus_id b = B \<and> b_seat_number b = seat_number r \<and>
               b_status b \<in> {''pending'', ''paid''})"
    using s by (auto simp: status_row_def seat_taken_iff)
  show "status r = ''available'' \<longleftrightarrow>
            \<not> (\<exists>b \<in> set (visible_bookings ro d). b_bus_id b = B \<and> b_seat_number b = seat_number r \<and>
               b_status b \<in> {''pending'', ''paid''})"
    using s by (auto simp: status_row_def seat_taken_iff)
next
  assume "can_select_bookings ro"
  then show "visible_bookings ro d = bookings d" by (simp add: visible_bookings_def)
next
  fix r assume "\<not> can_select_bookings ro" and r: "r \<in> set (get_seat_status ro d B)"
  then show "status r = ''available''"
    by (auto simp: get_seat_status_def status_row_def seat_taken_def visible_bookings_def)
qed

theorem get_seat_status_correct_witness:
  "\<lparr>seat_number = 1, is_active = True, status = ''taken''\<rparr>
     \<in> set (get_seat_status authenticated (example_db [example_booking ''K1'' ''B'' 1 ''paid'']) ''B'')
   \<and> (\<exists>b \<in> set (bookings (example_db [example_booking ''K1'' ''B'' 1 ''paid''])).
         b_bus_id b = ''B'' \<and> b_seat_number b = 1 \<and> b_status b \<in> {''pending'', ''paid''})
   \<and> \<lparr>seat_number = 1, is_active = True, status = ''available''\<rparr>
     \<in> set (get_seat_status anon (example_db [example_booking ''K1'' ''B'' 1 ''paid'']) ''B'')
   \<and> status \<lparr>seat_number = 1, is_active = True, status = ''available''\<rparr> = ''available''"
proof -
  let ?d = "example_db [example_booking ''K1'' ''B'' 1 ''paid'']"
  let ?r = "\<lparr>seat_number = 1, is_active = True, status = ''taken''\<rparr>"
  let ?a = "\<lparr>seat_number = 1, is_active = True, status = ''available''\<rparr>"
  note t = get_seat_status_correct[of authenticated ?d "''B''"]
  note n = get_seat_status_correct[of anon ?d "''B''"]
  have m: "?r \<in> set (get_seat_status authenticated ?d ''B'')"
    using t by simp
  have c: "can_select_bookings authenticated" using t by blast
  with t have v: "visible_bookings authenticated ?d = bookings ?d" by blast
  have "status ?r = ''taken''" by simp
  with t m have "\<exists>b \<in> set (visible_bookings authenticated ?d). b_bus_id b = ''B'' \<and>
      b_seat_number b = seat_number ?r \<and> b_status b \<in> {''pending'', ''paid''}"
    by blast
  then have e: "\<exists>b \<in> set (bookings ?d). b_bus_id b = ''B'' \<and> b_seat_number b = 1 \<and>
      b_status b \<in> {''pending'', ''paid''}"
    unfolding v by simp
  have ma: "?a \<in> set (get_seat_status anon ?d ''B'')"
    using n by simp
  have "\<not> can_select_bookings anon" using n by blast
  with n ma have "status ?a = ''available''" by blast
  with m e ma show ?thesis by blast
qed

section \<open>Booking a seat that is inactive or has no row\<close>

lemma insert_booking_seats:
  "insert_booking (d\<lparr>seats := ss\<rparr>) n =
     (case insert_booking d n of Inl e \<Rightarrow> Inl e | Inr d' \<Rightarrow> Inr (d'\<lparr>seats := ss\<rparr>))"
  by (cases "b_referral_id n") (simp_all add: insert_booking_def)

lemma onSubmit_seats:
  "onSubmit r (d\<lparr>seats := ss\<rparr>) i v a =
     (fst (onSubmit r d i v a), (snd (onSubmit r d i v a))\<lparr>seats := ss\<rparr>)"
  by (simp add: onSubmit_def insert_statement_def insert_booking_seats split: sum.splits)

text \<open>
  Claim C3 fails on the code.  The seat map does keep an inactive seat from being
  picked: in a map loaded from the example storage the button of the inactive seat 3
  selects nothing.  But the map is loaded when the form is opened and the submit handler
  never reads the seats table (its outcome and the bookings it leaves are the same for
  any content of that table).  In a session that may read bookings: the map is loaded
  while seat 1 is active and seat 1 is picked; an operator then deactivates seat 1; the
  form is submitted.  The booking of the now inactive seat is created, and no error for
  an inactive seat exists.
\<close>

theorem stale_map_inactive_seat_booked:
  "select_seat (get_seat_status authenticated (example_db []) ''B'') 3 = None \<and>
   select_seat (get_seat_status authenticated (example_db []) ''B'') 1 = Some 1 \<and>
   seat_inactive (step (example_db []) (ToggleSeat ''S1'' True)) ''B'' 1 \<and>
   onSubmit authenticated (step (example_db []) (ToggleSeat ''S1'' True)) ''K1''
            (example_values ''B'' 1) 8000 =
     (BookingCreated,
      (step (example_db []) (ToggleSeat ''S1'' True))
        \<lparr>bookings := [new_row ''K1'' (example_values ''B'' 1) 8000]\<rparr>) \<and>
   fst (onSubmit r (d\<lparr>seats := ss\<rparr>) i v a) = fst (onSubmit r d i v a) \<and>
   bookings (snd (onSubmit r (d\<lparr>seats := ss\<rparr>) i v a)) = bookings (snd (onSubmit r d i v a))"
proof (intro conjI)
  have g: "get_seat_status authenticated (example_db []) ''B'' =
       [\<lparr>seat_number = 1, is_active = True, status = ''available''\<rparr>,
        \<lparr>seat_number = 2, is_active = True, status = ''available''\<rparr>,
        \<lparr>seat_number = 3, is_active = False, status = ''available''\<rparr>]"
    by (simp add: get_seat_status_def example_db_def status_row_def seat_taken_def
        visible_bookings_def)
  show "select_seat (get_seat_status authenticated (example_db []) ''B'') 3 = None"
    unfolding g by (simp add: select_seat_def seat_button_disabled_def)
  show "select_seat (get_seat_status authenticated (example_db []) ''B'') 1 = Some 1"
    unfolding g by (simp add: select_seat_def seat_button_disabled_def)
  let ?d = "toggleSeatStatus (example_db []) ''S1'' True"
  have st: "step (example_db []) (ToggleSeat ''S1'' True) = ?d"
    by simp
  have b: "bookings ?d = []"
    by (simp add: toggleSeatStatus_def)
  show "seat_inactive (step (example_db []) (ToggleSeat ''S1'' True)) ''B'' 1"
    unfolding st by (simp add: seat_inactive_def toggleSeatStatus_def example_db_def)
  have fk: "foreign_keys_ok ?d (example_values ''B'' 1)"
    by (simp add: foreign_keys_ok_def toggleSeatStatus_def example_db_def example_values_def
        has_key_def)
  have ca: "can_select_bookings authenticated"
    by (simp add: can_select_bookings_def)
  have gi: "in_integer (v_seat_number (example_values ''B'' 1))"
    by (simp add: in_integer_def)
  have ni: "in_numeric_10_2 8000"
    by (simp add: in_numeric_10_2_def)
  have k: "''K1'' \<notin> b_id ` set (bookings ?d)"
    by (simp add: b)
  have nc: "\<not> index_conflict (bookings ?d) (new_row ''K1'' (example_values ''B'' 1) 8000)"
    by (simp add: b index_conflict_def)
  have "onSubmit authenticated ?d ''K1'' (example_values ''B'' 1) 8000 =
      (BookingCreated, ?d\<lparr>bookings := bookings ?d @ [new_row ''K1'' (example_values ''B'' 1) 8000]\<rparr>)"
    by (rule onSubmit_created[OF ca gi ni k fk nc])
  then show "onSubmit authenticated (step (example_db []) (ToggleSeat ''S1'' True)) ''K1''
            (example_values ''B'' 1) 8000 =
     (BookingCreated,
      (step (example_db []) (ToggleSeat ''S1'' True))
        \<lparr>bookings := [new_row ''K1'' (example_values ''B'' 1) 8000]\<rparr>)"
    unfolding st by (simp only: b append_Nil)
  show "fst (onSubmit r (d\<lparr>seats := ss\<rparr>) i v a) = fst (onSubmit r d i v a)"
    by (simp add: onSubmit_seats)
  show "bookings (snd (onSubmit r (d\<lparr>seats := ss\<rparr>) i v a)) = bookings (snd (onSubmit r d i v a))"
    by (simp add: onSubmit_seats)
qed

text \<open>
  Claim C10.  A booking needs no row of the seats table.  When the bus and seat number of
  a submission have no seat row and no pending or paid booking, the referenced rows
  exist, the values fit their columns and the generated id is new, the INSERT of any
  role writes a pending booking for that bus and seat number, and so does the form in a
  session that may read bookings.  The availability view of that bus, which lists rows of
  the seats table only, reports that seat number to no role, neither before nor after.
\<close>

theorem booking_without_seat_row:
  "\<not> has_seat_row d (v_bus_id v) (v_seat_number v) \<and>
   active_count d (v_bus_id v) (v_seat_number v) = 0 \<and>
   foreign_keys_ok d v \<and> in_integer (v_seat_number v) \<and> in_numeric_10_2 a \<and>
   i \<notin> b_id ` set (bookings d) \<Longrightarrow>
     insert_statement r False d (new_row i v a) =
       Inr (d\<lparr>bookings := bookings d @ [new_row i v a]\<rparr>) \<and>
     (can_select_bookings r \<longrightarrow>
        onSubmit r d i v a = (BookingCreated, d\<lparr>bookings := bookings d @ [new_row i v a]\<rparr>)) \<and>
     b_status (new_row i v a) = ''pending'' \<and>
     b_bus_id (new_row i v a) = v_bus_id v \<and> b_seat_number (new_row i v a) = v_seat_number v \<and>
     v_seat_number v \<notin> seat_number ` set (get_seat_status r' d (v_bus_id v)) \<and>
     v_seat_number v \<notin> seat_number ` set
        (get_seat_status r' (d\<lparr>bookings := bookings d @ [new_row i v a]\<rparr>) (v_bus_id v))"
proof -
  assume h: "\<not> has_seat_row d (v_bus_id v) (v_seat_number v) \<and>
   active_count d (v_bus_id v) (v_seat_number v) = 0 \<and>
   foreign_keys_ok d v \<and> in_integer (v_seat_number v) \<and> in_numeric_10_2 a \<and>
   i \<notin> b_id ` set (bookings d)"
  then have f: "foreign_keys_ok d v" and g: "in_integer (v_seat_number v)"
    and n: "in_numeric_10_2 a" and k: "i \<notin> b_id ` set (bookings d)"
    by blast+
  from h have "active_count d (b_bus_id (new_row i v a)) (b_seat_number (new_row i v a)) = 0"
    by (simp add: new_row_def)
  then have nc: "\<not> index_conflict (bookings d) (new_row i v a)"
    by (rule active_count_0_no_conflict)
  have 0: "insert_statement r False d (new_row i v a) =
       Inr (d\<lparr>bookings := bookings d @ [new_row i v a]\<rparr>)"
    by (rule insert_statement_row[OF g n _ k f nc]) simp
  have 1: "onSubmit r d i v a = (BookingCreated, d\<lparr>bookings := bookings d @ [new_row i v a]\<rparr>)"
    if "can_select_bookings r"
    by (rule onSubmit_created[OF that g n k f nc])
  have 2: "v_seat_number v \<notin> seat_number ` set (get_seat_status r' d' (v_bus_id v))"
    if "seats d' = seats d" for d'
    using h that unfolding get_seat_status_numbers by (auto simp: has_seat_row_def list_ex_iff)
  show ?thesis
    using 0 1 2[of d] 2[of "d\<lparr>bookings := bookings d @ [new_row i v a]\<rparr>"]
    by (simp add: new_row_def)
qed

theorem booking_without_seat_row_witness:
  "\<not> has_seat_row (example_db []) ''B'' 40 \<and>
   insert_statement anon False (example_db []) (new_row ''K1'' (example_values ''B'' 40) 8000) =
     Inr (example_db [new_row ''K1'' (example_values ''B'' 40) 8000]) \<and>
   onSubmit authenticated (example_db []) ''K1'' (example_values ''B'' 40) 8000 =
     (BookingCreated, example_db [new_row ''K1'' (example_values ''B'' 40) 8000]) \<and>
   map seat_number
     (get_seat_status authenticated (example_db [new_row ''K1'' (example_values ''B'' 40) 8000]) ''B'')
     = [1, 2, 3]"
proof -
  have h: "\<not> has_seat_row (example_db []) (v_bus_id (example_values ''B'' 40))
             (v_seat_number (example_values ''B'' 40)) \<and>
    active_count (example_db []) (v_bus_id (example_values ''B'' 40))
             (v_seat_number (example_values ''B'' 40)) = 0 \<and>
    foreign_keys_ok (example_db []) (example_values ''B'' 40) \<and>
    in_integer (v_seat_number (example_values ''B'' 40)) \<and> in_numeric_10_2 8000 \<and>
    ''K1'' \<notin> b_id ` set (bookings (example_db []))"
  proof -
    have "\<not> has_seat_row (example_db []) ''B'' 40"
      by (simp add: has_seat_row_def example_db_def)
    then show ?thesis
      by (simp add: active_count_def in_integer_def in_numeric_10_2_def)
  qed
  have ca: "can_select_bookings authenticated" by (simp add: can_select_bookings_def)
  have s: "insert_statement anon False (example_db []) (new_row ''K1'' (example_values ''B'' 40) 8000) =
     Inr (example_db [new_row ''K1'' (example_values ''B'' 40) 8000])"
    using booking_without_seat_row[OF h, of anon] by simp
  have c: "onSubmit authenticated (example_db []) ''K1'' (example_values ''B'' 40) 8000 =
     (BookingCreated, example_db [new_row ''K1'' (example_values ''B'' 40) 8000])"
    using booking_without_seat_row[OF h, of authenticated] ca by simp
  have g: "map seat_number (get_seat_status authenticated (example_db bs) ''B'') = [1, 2, 3]" for bs
    by (simp add: get_seat_status_def example_db_def status_row_def)
  show ?thesis using h s c g by simp
qed

section \<open>The transitions offered to the operator\<close>

text \<open>
  Claim C4, as stated, fails: for a booking shown as paid the page draws no button, so
  paid to cancelled is not among the transitions offered.
\<close>

theorem admin_paid_to_cancelled_counterexample:
  "''cancelled'' \<notin> set (offered_actions ''paid'')"
  by (simp add: offered_actions_def)

text \<open>
  Claim C4, amended.  The bookings page offers exactly three manual transitions: pending
  to paid, pending to cancelled, and cancelled to pending.  A booking shown as paid is
  offered no transition, neither to cancelled nor back to pending.
\<close>

theorem admin_offered_transitions:
  "(st' \<in> set (offered_actions st)) =
     ((st, st') \<in> {(''pending'', ''paid''), (''pending'', ''cancelled''), (''cancelled'', ''pending'')})
   \<and> offered_actions ''paid'' = []"
  by (auto simp: offered_actions_def)

section \<open>The payment webhook\<close>

lemma index_conflict_held:
  "index_conflict (bookings d) n = (in_index n \<and> held_by_other d n)"
  by (simp add: index_conflict_def held_by_other_def)

lemma held_by_other_updates: "held_by_other d (updates payload b) = held_by_other d b"
  by (simp add: held_by_other_def updates_def Let_def)

lemma ledger_ok_not_held:
  "ledger_ok (bookings d) \<Longrightarrow> b \<in> set (bookings d) \<Longrightarrow> in_index b \<Longrightarrow> \<not> held_by_other d b"
  by (auto simp: ledger_ok_def index_conflict_held)

lemma extract_reference_object:
  "truthy (extract_reference payload) \<Longrightarrow> \<exists>kvs. payload = JObject kvs"
  by (cases payload) (simp_all add: extract_reference_def js_or_def)

lemma filter_id_single:
  "distinct (map b_id bs) \<Longrightarrow> b \<in> set bs \<Longrightarrow> filter (\<lambda>x. b_id x = b_id b) bs = [b]"
proof (induction bs)
  case Nil
  then show ?case by simp
next
  case (Cons a bs)
  show ?case
  proof (cases "a = b")
    case True
    then have "b_id b \<notin> b_id ` set bs"
      using Cons.prems by simp
    then have "filter (\<lambda>x. b_id x = b_id b) bs = []"
      unfolding filter_empty_conv by (metis imageI)
    with True show ?thesis by simp
  next
    case False
    then have "b \<in> set bs" using Cons.prems by simp
    then have "b_id a \<noteq> b_id b" using Cons.prems by auto
    with Cons \<open>b \<in> set bs\<close> show ?thesis by simp
  qed
qed

lemma update_bookings_matched:
  assumes "distinct (map b_id (bookings d))" "b \<in> set (bookings d)" "b_id b = r"
  shows "update_bookings d r f =
     (if index_conflict (bookings d) (f b) then Inl (UniqueViolation ''idx_unique_active_booking'')
      else Inr (d\<lparr>bookings := map (\<lambda>x. if b_id x = r then f x else x) (bookings d)\<rparr>, [f b]))"
  using filter_id_single[OF assms(1,2)] assms(3) by (simp add: update_bookings_def)

lemma update_bookings_unmatched:
  assumes "r \<notin> b_id ` set (bookings d)"
  shows "update_bookings d r f = Inr (d, [])"
proof -
  have 1: "filter (\<lambda>b. b_id b = r) (bookings d) = []"
    using assms by (auto simp: filter_empty_conv)
  have 2: "map (\<lambda>b. if b_id b = r then f b else b) (bookings d) = bookings d"
    using assms by (intro map_idI) auto
  show ?thesis by (simp add: update_bookings_def 1 2)
qed

lemma hubtel_webhook_object:
  assumes "req_method req \<noteq> ''OPTIONS''" "req_body req = Some payload"
    "truthy (extract_reference payload)"
  shows "hubtel_webhook d req =
     (case update_by_reference d (extract_reference payload) (updates payload) of
        Inl e \<Rightarrow> (Response 500 (BodyError (StorageFailure e)), d)
      | Inr (d', rows) \<Rightarrow>
          (case maybeSingle rows of
             Inl e \<Rightarrow> (Response 500 (BodyError (StorageFailure e)), d')
           | Inr updated \<Rightarrow> (Response 200 BodyOk, d')))"
proof -
  from extract_reference_object[OF assms(3)] obtain kvs where "payload = JObject kvs" ..
  then show ?thesis using assms by (simp add: hubtel_webhook_def Let_def)
qed

lemma hubtel_webhook_matched:
  assumes "req_method req \<noteq> ''OPTIONS''" "req_body req = Some payload"
    "extract_reference payload = JStr r" "r \<noteq> []"
    "distinct (map b_id (bookings d))" "b \<in> set (bookings d)" "b_id b = r"
  shows "hubtel_webhook d req =
     (if in_index (updates payload b) \<and> held_by_other d b
      then (Response 500 (BodyError (StorageFailure (UniqueViolation ''idx_unique_active_booking''))), d)
      else (Response 200 BodyOk,
            d\<lparr>bookings := map (\<lambda>x. if b_id x = r then updates payload x else x) (bookings d)\<rparr>))"
proof -
  have t: "truthy (extract_reference payload)" using assms(3,4) by simp
  show ?thesis
    unfolding hubtel_webhook_object[OF assms(1,2) t]
    by (simp add: update_by_reference_def assms(3) update_bookings_matched[OF assms(5,6,7)]
        index_conflict_held held_by_other_updates)
qed

lemma hubtel_webhook_unmatched:
  assumes "req_method req \<noteq> ''OPTIONS''" "req_body req = Some payload"
    "truthy (extract_reference payload)"
    "\<forall>b \<in> set (bookings d). extract_reference payload \<noteq> JStr (b_id b)"
  shows "hubtel_webhook d req = (Response 200 BodyOk, d)"
proof (cases "reference_text (extract_reference payload)")
  case None
  then show ?thesis
    unfolding hubtel_webhook_object[OF assms(1,2,3)] by (simp add: update_by_reference_def)
next
  case (Some r)
  then have "extract_reference payload = JStr r"
    by (cases "extract_reference payload") simp_all
  with assms(4) have "r \<notin> b_id ` set (bookings d)" by auto
  then show ?thesis
    unfolding hubtel_webhook_object[OF assms(1,2,3)]
    by (simp add: update_by_reference_def Some update_bookings_unmatched)
qed

lemma hubtel_webhook_no_reference:
  assumes "req_method req \<noteq> ''OPTIONS''"
    "req_body req = None \<or> (\<exists>payload. req_body req = Some payload \<and> payload \<noteq> JNull \<and>
        payload \<noteq> JUndefined \<and> \<not> truthy (extract_reference payload))"
  shows "hubtel_webhook d req = (Response 200 BodyOk, d)"
  using assms
  by (auto simp: hubtel_webhook_def extract_reference_def js_or_def)

lemma updates_fields:
  "b_status (updates payload b) = (if isPaid (extract_status payload) then ''paid'' else b_status b)"
  "b_payment_reference (updates payload b) =
     (if extract_transactionId payload = JUndefined \<or> extract_transactionId payload = JNull
      then extract_reference payload else extract_transactionId payload)"
  "b_receipt_url (updates payload b) =
     (if truthy (extract_receiptUrl payload) then extract_receiptUrl payload else b_receipt_url b)"
  "(updates payload b)\<lparr>b_status := b_status b, b_payment_reference := b_payment_reference b,
       b_receipt_url := b_receipt_url b\<rparr> = b"
  by (simp_all add: updates_def Let_def nullish_or_def)

lemma new_row_example:
  "new_row i (example_values bus n) 8000 = example_booking i bus n ''pending''"
  by (simp add: new_row_def example_values_def example_booking_def)

lemma example_booking_sel [simp]:
  "b_id (example_booking i bus n st) = i"
  "b_bus_id (example_booking i bus n st) = bus"
  "b_seat_number (example_booking i bus n st) = n"
  "b_status (example_booking i bus n st) = st"
  "(example_booking i bus n st)\<lparr>b_status := st'\<rparr> = example_booking i bus n st'"
  by (simp_all add: example_booking_def)

lemma step_submit_example:
  assumes "i \<notin> b_id ` set bs" "\<not> index_conflict bs (example_booking i ''B'' n ''pending'')"
    and "in_integer n"
  shows "step (example_db bs) (Submit authenticated i (example_values ''B'' n) 8000) =
           example_db (bs @ [example_booking i ''B'' n ''pending''])"
proof -
  have "onSubmit authenticated (example_db bs) i (example_values ''B'' n) 8000 =
      (BookingCreated,
       (example_db bs)\<lparr>bookings := bookings (example_db bs) @
                                     [new_row i (example_values ''B'' n) 8000]\<rparr>)"
    using assms
    by (intro onSubmit_created)
       (simp_all add: can_select_bookings_def in_numeric_10_2_def new_row_example)
  then show ?thesis
    by (simp add: new_row_example)
qed

lemma step_admin_example:
  assumes "distinct (map b_id bs)" "b \<in> set bs" "b_id b = i"
    "\<not> index_conflict bs (b\<lparr>b_status := st\<rparr>)"
  shows "step (example_db bs) (AdminUpdate i st) =
           example_db (map (\<lambda>x. if b_id x = i then x\<lparr>b_status := st\<rparr> else x) bs)"
  using update_bookings_matched[of "example_db bs" b i "\<lambda>b. b\<lparr>b_status := st\<rparr>"] assms
  by (simp add: updateBookingStatus_def)

lemma reachable_cancelled_then_rebooked:
  "reachable (example_db [example_booking ''K1'' ''B'' 5 ''cancelled'',
                          example_booking ''K2'' ''B'' 5 ''pending''])"
proof -
  have 0: "reachable (example_db [])"
    by (rule reachable.initial) simp
  have s1: "step (example_db []) (Submit authenticated ''K1'' (example_values ''B'' 5) 8000) =
              example_db ([] @ [example_booking ''K1'' ''B'' 5 ''pending''])"
    by (rule step_submit_example) (simp_all add: index_conflict_def in_integer_def)
  have 1: "reachable (example_db [example_booking ''K1'' ''B'' 5 ''pending''])"
    using reachable.after[OF 0, of "Submit authenticated ''K1'' (example_values ''B'' 5) 8000"]
    by (simp only: s1 append_Nil)
  have s2: "step (example_db [example_booking ''K1'' ''B'' 5 ''pending''])
                 (AdminUpdate ''K1'' ''cancelled'') =
              example_db (map (\<lambda>x. if b_id x = ''K1'' then x\<lparr>b_status := ''cancelled''\<rparr> else x)
                            [example_booking ''K1'' ''B'' 5 ''pending''])"
    by (rule step_admin_example[where b = "example_booking ''K1'' ''B'' 5 ''pending''"])
       (simp_all add: index_conflict_def in_index_def)
  have 2: "reachable (example_db [example_booking ''K1'' ''B'' 5 ''cancelled''])"
    using reachable.after[OF 1, of "AdminUpdate ''K1'' ''cancelled''"]
    unfolding s2 by simp
  have s3: "step (example_db [example_booking ''K1'' ''B'' 5 ''cancelled''])
                 (Submit authenticated ''K2'' (example_values ''B'' 5) 8000) =
              example_db ([example_booking ''K1'' ''B'' 5 ''cancelled''] @
                          [example_booking ''K2'' ''B'' 5 ''pending''])"
    by (rule step_submit_example) (simp_all add: index_conflict_def in_index_def in_integer_def)
  show ?thesis
    using reachable.after[OF 2, of "Submit authenticated ''K2'' (example_values ''B'' 5) 8000"]
    unfolding s3 by simp
qed

lemma reachable_cancelled_then_paid:
  "reachable (example_db [example_booking ''K1'' ''B'' 5 ''cancelled'',
                          example_booking ''K2'' ''B'' 5 ''paid''])"
proof -
  let ?bs = "[example_booking ''K1'' ''B'' 5 ''cancelled'', example_booking ''K2'' ''B'' 5 ''pending'']"
  have s: "step (example_db ?bs) (AdminUpdate ''K2'' ''paid'') =
             example_db (map (\<lambda>x. if b_id x = ''K2'' then x\<lparr>b_status := ''paid''\<rparr> else x) ?bs)"
    by (rule step_admin_example[where b = "example_booking ''K2'' ''B'' 5 ''pending''"])
       (simp_all add: index_conflict_def in_index_def)
  show ?thesis
    using reachable.after[OF reachable_cancelled_then_rebooked, of "AdminUpdate ''K2'' ''paid''"]
    unfolding s by simp
qed

lemma paid_request_fields:
  "req_method (paid_request r) \<noteq> ''OPTIONS''"
  "req_body (paid_request r) =
     Some (JObject [(''Status'', JStr ''Success''), (''ClientReference'', JStr r),
                    (''TransactionId'', JStr ''T-1'')])"
  "r \<noteq> [] \<Longrightarrow> extract_reference (JObject [(''Status'', JStr ''Success''), (''ClientReference'', JStr r),
                    (''TransactionId'', JStr ''T-1'')]) = JStr r"
  "extract_status (JObject [(''Status'', JStr ''Success''), (''ClientReference'', JStr r),
                    (''TransactionId'', JStr ''T-1'')]) = JStr ''Success''"
  "extract_transactionId (JObject [(''Status'', JStr ''Success''), (''ClientReference'', JStr r),
                    (''TransactionId'', JStr ''T-1'')]) = JStr ''T-1''"
  "extract_receiptUrl (JObject [(''Status'', JStr ''Success''), (''ClientReference'', JStr r),
                    (''TransactionId'', JStr ''T-1'')]) = JUndefined"
  by (simp_all add: paid_request_def extract_reference_def extract_status_def
      extract_transactionId_def extract_receiptUrl_def js_or_def)

lemma updates_idem: "updates payload (updates payload b) = updates payload b"
  by (simp add: updates_def Let_def)

lemma update_bookings_twice:
  assumes idf: "\<And>b. b_id (f b) = b_id b" and idem: "\<And>b. f (f b) = f b"
    and u: "update_bookings d r f = Inr (d1, rows)"
  shows "update_bookings d1 r f = Inr (d1, rows)"
proof -
  let ?P = "\<lambda>b. b_id b = r"
  let ?g = "\<lambda>b. if b_id b = r then f b else b"
  let ?bs = "bookings d"
  from u have chk: "\<not> list_ex (index_conflict ?bs) (map f (filter ?P ?bs))"
    and d1: "d1 = d\<lparr>bookings := map ?g ?bs\<rparr>" and rows: "rows = map f (filter ?P ?bs)"
    by (auto simp: update_bookings_def Let_def split: if_splits)
  have Pg: "?P (?g x) = ?P x" for x by (simp add: idf)
  have "filter ?P (map ?g ?bs) = map ?g (filter ?P ?bs)"
    by (simp add: filter_map comp_def idf cong: if_cong)
  also have "\<dots> = map f (filter ?P ?bs)"
    by (rule map_cong) auto
  finally have fl: "filter ?P (map ?g ?bs) = map f (filter ?P ?bs)" .
  have new': "map f (filter ?P (bookings d1)) = rows"
    unfolding d1 rows by (simp add: fl idem comp_def)
  have bk: "map ?g (bookings d1) = bookings d1"
    unfolding d1 by (simp add: idf idem comp_def)
  have same: "index_conflict (map ?g ?bs) n = index_conflict ?bs n" if "b_id n = r" for n
  proof -
    have "(\<exists>c \<in> set (map ?g ?bs). b_id c \<noteq> r \<and> in_index c \<and> b_bus_id c = b_bus_id n \<and>
              b_seat_number c = b_seat_number n) =
          (\<exists>c \<in> set ?bs. b_id c \<noteq> r \<and> in_index c \<and> b_bus_id c = b_bus_id n \<and>
              b_seat_number c = b_seat_number n)"
      by (auto simp: idf split: if_splits)
    then show ?thesis using that by (simp add: index_conflict_iff)
  qed
  have "list_ex (index_conflict (map ?g ?bs)) (map f (filter ?P ?bs)) =
        list_ex (index_conflict ?bs) (map f (filter ?P ?bs))"
    unfolding list_ex_iff by (auto simp: same idf)
  with chk have chk1: "\<not> list_ex (index_conflict (bookings d1)) rows"
    unfolding d1 rows by simp
  have "update_bookings d1 r f = Inr (d1\<lparr>bookings := bookings d1\<rparr>, rows)"
    unfolding update_bookings_def Let_def new' bk using chk1 by simp
  then show ?thesis by simp
qed

lemma update_by_reference_twice:
  assumes "\<And>b. b_id (f b) = b_id b" "\<And>b. f (f b) = f b"
    and "update_by_reference d ref f = Inr (d1, rows)"
  shows "update_by_reference d1 ref f = Inr (d1, rows)"
  using assms(3) update_bookings_twice[of f d _ d1 rows, OF assms(1,2)]
  by (auto simp: update_by_reference_def split: option.splits)

lemma update_by_reference_Inl:
  "update_by_reference d ref f = Inl e \<Longrightarrow> e = UniqueViolation ''idx_unique_active_booking''"
  by (auto simp: update_by_reference_def update_bookings_def Let_def split: option.splits if_splits)

lemma hubtel_webhook_twice:
  "hubtel_webhook (snd (hubtel_webhook d req)) req = hubtel_webhook d req"
proof (cases "req_method req = ''OPTIONS''")
  case True
  then show ?thesis by (simp add: hubtel_webhook_def)
next
  case meth: False
  define payload where "payload = (case req_body req of None \<Rightarrow> JObject [] | Some v \<Rightarrow> v)"
  show ?thesis
  proof (cases "payload = JNull \<or> payload = JUndefined")
    case True
    then show ?thesis using meth by (auto simp: hubtel_webhook_def payload_def Let_def)
  next
    case nn: False
    show ?thesis
    proof (cases "truthy (extract_reference payload)")
      case False
      then show ?thesis using meth nn by (auto simp: hubtel_webhook_def payload_def Let_def)
    next
      case True
      have w: "hubtel_webhook d' req =
         (case update_by_reference d' (extract_reference payload) (updates payload) of
            Inl e \<Rightarrow> (Response 500 (BodyError (StorageFailure e)), d')
          | Inr (d'', rows) \<Rightarrow>
              (case maybeSingle rows of
                 Inl e \<Rightarrow> (Response 500 (BodyError (StorageFailure e)), d'')
               | Inr updated \<Rightarrow> (Response 200 BodyOk, d'')))" for d'
        using meth nn True by (simp add: hubtel_webhook_def payload_def Let_def)
      show ?thesis
      proof (cases "update_by_reference d (extract_reference payload) (updates payload)")
        case (Inl e)
        then show ?thesis by (simp add: w)
      next
        case (Inr p)
        obtain d1 rows where p: "p = (d1, rows)" by (cases p)
        from Inr p have 2: "update_by_reference d1 (extract_reference payload) (updates payload)
            = Inr (d1, rows)"
          by (intro update_by_reference_twice[where d = d]) (simp_all add: updates_id updates_idem)
        show ?thesis
          using Inr p 2 by (simp add: w split: sum.splits)
      qed
    qed
  qed
qed

text \<open>
  Claim C5, as stated, fails.  The state below is reached by booking seat 5, cancelling
  that booking and booking seat 5 again.  A payload with status \<open>Success\<close> whose
  reference is the cancelled booking does not set it to paid: the storage rejects the
  update, the handler answers 500 and the table is unchanged.
\<close>

theorem webhook_paid_blocked_counterexample:
  "reachable (example_db [example_booking ''K1'' ''B'' 5 ''cancelled'',
                          example_booking ''K2'' ''B'' 5 ''pending'']) \<and>
   isPaid (extract_status (the (req_body (paid_request ''K1'')))) \<and>
   extract_reference (the (req_body (paid_request ''K1''))) = JStr ''K1'' \<and>
   hubtel_webhook (example_db [example_booking ''K1'' ''B'' 5 ''cancelled'',
                               example_booking ''K2'' ''B'' 5 ''pending'']) (paid_request ''K1'') =
     (Response 500 (BodyError (StorageFailure (UniqueViolation ''idx_unique_active_booking''))),
      example_db [example_booking ''K1'' ''B'' 5 ''cancelled'',
                  example_booking ''K2'' ''B'' 5 ''pending''])"
proof -
  let ?d = "example_db [example_booking ''K1'' ''B'' 5 ''cancelled'',
                        example_booking ''K2'' ''B'' 5 ''pending'']"
  have "hubtel_webhook ?d (paid_request ''K1'') =
     (Response 500 (BodyError (StorageFailure (UniqueViolation ''idx_unique_active_booking''))), ?d)"
    using hubtel_webhook_matched[of "paid_request ''K1''" _ "''K1''" ?d
        "example_booking ''K1'' ''B'' 5 ''cancelled''", OF paid_request_fields(1,2)]
    by (simp add: paid_request_fields updates_fields in_index_def held_by_other_def paidStates_def)
  then show ?thesis
    using reachable_cancelled_then_rebooked
    by (simp add: paid_request_fields paidStates_def)
qed

text \<open>
  Claim C5, amended.  In a bookings table kept by the two indexes, for a request whose
  extracted reference is the id of a booking: when the extracted status is one of
  Success, Successful, Completed, PAID, Paid and no other pending or paid booking holds
  the same bus and seat number, the handler answers 200 and the booking gets status
  paid; when another pending or paid booking holds them, the storage rejects the update,
  the handler answers 500 and nothing changes; when the extracted status is not one of
  the five, the handler answers 200 and the status stays as it was.  In the updated row
  \<open>payment_reference\<close> is the extracted transaction id unless that is null or
  undefined, and the reference then; \<open>receipt_url\<close> is the extracted receipt URL when
  that is truthy and is left alone otherwise; no other column changes, and no other
  row changes.
\<close>

theorem webhook_records_payment:
  "ledger_ok (bookings d) \<and> req_method req \<noteq> ''OPTIONS'' \<and> req_body req = Some payload \<and>
   extract_reference payload = JStr r \<and> r \<noteq> [] \<and> b \<in> set (bookings d) \<and> b_id b = r \<Longrightarrow>
   (isPaid (extract_status payload) \<and> \<not> held_by_other d b \<longrightarrow>
      hubtel_webhook d req =
        (Response 200 BodyOk,
         d\<lparr>bookings := map (\<lambda>x. if b_id x = r then updates payload x else x) (bookings d)\<rparr>) \<and>
      b_status (updates payload b) = ''paid'') \<and>
   (isPaid (extract_status payload) \<and> held_by_other d b \<longrightarrow>
      hubtel_webhook d req =
        (Response 500 (BodyError (StorageFailure (UniqueViolation ''idx_unique_active_booking''))), d)) \<and>
   (\<not> isPaid (extract_status payload) \<longrightarrow>
      hubtel_webhook d req =
        (Response 200 BodyOk,
         d\<lparr>bookings := map (\<lambda>x. if b_id x = r then updates payload x else x) (bookings d)\<rparr>) \<and>
      b_status (updates payload b) = b_status b) \<and>
   b_payment_reference (updates payload b) =
     (if extract_transactionId payload = JUndefined \<or> extract_transactionId payload = JNull
      then JStr r else extract_transactionId payload) \<and>
   b_receipt_url (updates payload b) =
     (if truthy (extract_receiptUrl payload) then extract_receiptUrl payload else b_receipt_url b) \<and>
   (updates payload b)\<lparr>b_status := b_status b, b_payment_reference := b_payment_reference b,
       b_receipt_url := b_receipt_url b\<rparr> = b"
proof -
  assume h: "ledger_ok (bookings d) \<and> req_method req \<noteq> ''OPTIONS'' \<and> req_body req = Some payload \<and>
   extract_reference payload = JStr r \<and> r \<noteq> [] \<and> b \<in> set (bookings d) \<and> b_id b = r"
  then have dist: "distinct (map b_id (bookings d))" by (simp add: ledger_ok_def)
  have w: "hubtel_webhook d req =
     (if in_index (updates payload b) \<and> held_by_other d b
      then (Response 500 (BodyError (StorageFailure (UniqueViolation ''idx_unique_active_booking''))), d)
      else (Response 200 BodyOk,
            d\<lparr>bookings := map (\<lambda>x. if b_id x = r then updates payload x else x) (bookings d)\<rparr>))"
    using h dist by (intro hubtel_webhook_matched) simp_all
  have nh: "\<not> held_by_other d b" if "in_index b"
    using h that ledger_ok_not_held by blast
  have paid: "in_index (updates payload b)" if "isPaid (extract_status payload)"
    using that by (simp add: in_index_def updates_fields)
  have same: "in_index (updates payload b) = in_index b" if "\<not> isPaid (extract_status payload)"
    using that by (simp add: in_index_def updates_fields)
  show ?thesis
    using w nh paid same h by (auto simp: updates_fields)
qed

theorem webhook_records_payment_witness:
  "hubtel_webhook (example_db [example_booking ''K1'' ''B'' 5 ''pending'']) (paid_request ''K1'') =
     (Response 200 BodyOk,
      example_db [(example_booking ''K1'' ''B'' 5 ''paid'')\<lparr>b_payment_reference := JStr ''T-1''\<rparr>])"
proof -
  let ?b = "example_booking ''K1'' ''B'' 5 ''pending''"
  let ?p = "JObject [(''Status'', JStr ''Success''), (''ClientReference'', JStr ''K1''),
                    (''TransactionId'', JStr ''T-1'')]"
  have h: "ledger_ok (bookings (example_db [?b])) \<and> req_method (paid_request ''K1'') \<noteq> ''OPTIONS'' \<and>
     req_body (paid_request ''K1'') = Some ?p \<and> extract_reference ?p = JStr ''K1'' \<and> ''K1'' \<noteq> [] \<and>
     ?b \<in> set (bookings (example_db [?b])) \<and> b_id ?b = ''K1''"
    by (simp add: paid_request_fields ledger_ok_def index_conflict_def)
  have p: "isPaid (extract_status ?p) \<and> \<not> held_by_other (example_db [?b]) ?b"
    by (simp add: paid_request_fields paidStates_def held_by_other_def)
  have u: "updates ?p ?b = (example_booking ''K1'' ''B'' 5 ''paid'')\<lparr>b_payment_reference := JStr ''T-1''\<rparr>"
    by (simp add: updates_def Let_def paid_request_fields paidStates_def nullish_or_def
        example_booking_def)
  from webhook_records_payment[OF h] p u show ?thesis by simp
qed

text \<open>
  Claim C6, as stated, fails.  In the state reached by booking seat 5, cancelling that
  booking and booking seat 5 again, a payload with status \<open>Success\<close> for the
  cancelled booking is rejected by the unique index on every delivery: the second
  delivery is answered 500 as the first was, and the booking is cancelled, not paid.
\<close>

theorem webhook_redelivery_blocked_counterexample:
  "reachable (example_db [example_booking ''K1'' ''B'' 5 ''cancelled'',
                          example_booking ''K2'' ''B'' 5 ''pending'']) \<and>
   isPaid (extract_status (the (req_body (paid_request ''K1'')))) \<and>
   extract_reference (the (req_body (paid_request ''K1''))) = JStr ''K1'' \<and>
   hubtel_webhook
     (snd (hubtel_webhook (example_db [example_booking ''K1'' ''B'' 5 ''cancelled'',
                                       example_booking ''K2'' ''B'' 5 ''pending''])
                          (paid_request ''K1'')))
     (paid_request ''K1'') =
     (Response 500 (BodyError (StorageFailure (UniqueViolation ''idx_unique_active_booking''))),
      example_db [example_booking ''K1'' ''B'' 5 ''cancelled'',
                  example_booking ''K2'' ''B'' 5 ''pending''])"
proof -
  let ?d = "example_db [example_booking ''K1'' ''B'' 5 ''cancelled'',
                        example_booking ''K2'' ''B'' 5 ''pending'']"
  have 1: "hubtel_webhook ?d (paid_request ''K1'') =
     (Response 500 (BodyError (StorageFailure (UniqueViolation ''idx_unique_active_booking''))), ?d)"
    using hubtel_webhook_matched[of "paid_request ''K1''" _ "''K1''" ?d
        "example_booking ''K1'' ''B'' 5 ''cancelled''", OF paid_request_fields(1,2)]
    by (simp add: paid_request_fields updates_fields in_index_def held_by_other_def paidStates_def)
  have "hubtel_webhook (snd (hubtel_webhook ?d (paid_request ''K1''))) (paid_request ''K1'') =
     (Response 500 (BodyError (StorageFailure (UniqueViolation ''idx_unique_active_booking''))), ?d)"
    by (simp add: 1)
  then show ?thesis
    using reachable_cancelled_then_rebooked
    by (simp add: paid_request_fields paidStates_def)
qed

text \<open>
  Claim C6, amended.  Delivering a request a second time gives the response of the first
  delivery and leaves the storage as the first delivery left it.  So when the first
  delivery of a payload with a paid status and a reference was answered 200, the second
  is answered 200 as well, and every booking with that id then has status paid and a
  payment reference that is set; when the first delivery was rejected by the unique
  index, so is the second, and nothing has changed.
\<close>

theorem webhook_redelivery:
  "hubtel_webhook (snd (hubtel_webhook d req)) req = hubtel_webhook d req \<and>
   (fst (hubtel_webhook d req) = Response 200 BodyOk \<and> req_method req \<noteq> ''OPTIONS'' \<and>
    req_body req = Some payload \<and> isPaid (extract_status payload) \<and>
    extract_reference payload = JStr r \<and> r \<noteq> [] \<longrightarrow>
      fst (hubtel_webhook (snd (hubtel_webhook d req)) req) = Response 200 BodyOk \<and>
      (\<forall>b \<in> set (bookings (snd (hubtel_webhook (snd (hubtel_webhook d req)) req))).
         b_id b = r \<longrightarrow>
           b_status b = ''paid'' \<and>
           b_payment_reference b =
             (if extract_transactionId payload = JUndefined \<or> extract_transactionId payload = JNull
              then JStr r else extract_transactionId payload) \<and>
           b_payment_reference b \<noteq> JNull \<and> b_payment_reference b \<noteq> JUndefined))"
proof (intro conjI impI)
  show tw: "hubtel_webhook (snd (hubtel_webhook d req)) req = hubtel_webhook d req"
    by (rule hubtel_webhook_twice)
  assume h: "fst (hubtel_webhook d req) = Response 200 BodyOk \<and> req_method req \<noteq> ''OPTIONS'' \<and>
    req_body req = Some payload \<and> isPaid (extract_status payload) \<and>
    extract_reference payload = JStr r \<and> r \<noteq> []"
  then show "fst (hubtel_webhook (snd (hubtel_webhook d req)) req) = Response 200 BodyOk"
    by (simp add: tw)
  show "\<forall>b \<in> set (bookings (snd (hubtel_webhook (snd (hubtel_webhook d req)) req))).
         b_id b = r \<longrightarrow>
           b_status b = ''paid'' \<and>
           b_payment_reference b =
             (if extract_transactionId payload = JUndefined \<or> extract_transactionId payload = JNull
              then JStr r else extract_transactionId payload) \<and>
           b_payment_reference b \<noteq> JNull \<and> b_payment_reference b \<noteq> JUndefined"
  proof (cases "truthy (extract_reference payload)")
    case False
    with h show ?thesis by simp
  next
    case True
    have w: "hubtel_webhook d req =
       (case update_by_reference d (extract_reference payload) (updates payload) of
          Inl e \<Rightarrow> (Response 500 (BodyError (StorageFailure e)), d)
        | Inr (d', rows) \<Rightarrow>
            (case maybeSingle rows of
               Inl e \<Rightarrow> (Response 500 (BodyError (StorageFailure e)), d')
             | Inr updated \<Rightarrow> (Response 200 BodyOk, d')))"
      using h True by (intro hubtel_webhook_object) simp_all
    have bk: "bookings (snd (hubtel_webhook d req)) =
        map (\<lambda>x. if b_id x = r then updates payload x else x) (bookings d)"
      using h unfolding w
      by (auto simp: update_by_reference_def update_bookings_def Let_def
          split: sum.splits if_splits)
    have bk2: "bookings (snd (hubtel_webhook (snd (hubtel_webhook d req)) req)) =
        map (\<lambda>x. if b_id x = r then updates payload x else x) (bookings d)"
      using tw bk by simp
    from h have ip: "isPaid (extract_status payload)" and er: "extract_reference payload = JStr r"
      by blast+
    show ?thesis
    proof (intro ballI impI)
      fix b
      assume b: "b \<in> set (bookings (snd (hubtel_webhook (snd (hubtel_webhook d req)) req)))"
        and i: "b_id b = r"
      from b obtain c where c: "c \<in> set (bookings d)"
          "b = (if b_id c = r then updates payload c else c)"
        unfolding bk2 by auto
      with i have "b = updates payload c"
        by (auto simp: updates_id split: if_splits)
      then show "b_status b = ''paid'' \<and>
           b_payment_reference b =
             (if extract_transactionId payload = JUndefined \<or> extract_transactionId payload = JNull
              then JStr r else extract_transactionId payload) \<and>
           b_payment_reference b \<noteq> JNull \<and> b_payment_reference b \<noteq> JUndefined"
        using ip er by (simp add: updates_fields)
    qed
  qed
qed

theorem webhook_redelivery_witness:
  "hubtel_webhook (example_db [example_booking ''K1'' ''B'' 5 ''pending'']) (paid_request ''K1'') =
     (Response 200 BodyOk,
      example_db [(example_booking ''K1'' ''B'' 5 ''paid'')\<lparr>b_payment_reference := JStr ''T-1''\<rparr>]) \<and>
   hubtel_webhook
     (example_db [(example_booking ''K1'' ''B'' 5 ''paid'')\<lparr>b_payment_reference := JStr ''T-1''\<rparr>])
     (paid_request ''K1'') =
     (Response 200 BodyOk,
      example_db [(example_booking ''K1'' ''B'' 5 ''paid'')\<lparr>b_payment_reference := JStr ''T-1''\<rparr>])"
proof -
  let ?b = "example_booking ''K1'' ''B'' 5 ''pending''"
  let ?b' = "(example_booking ''K1'' ''B'' 5 ''paid'')\<lparr>b_payment_reference := JStr ''T-1''\<rparr>"
  let ?p = "JObject [(''Status'', JStr ''Success''), (''ClientReference'', JStr ''K1''),
                    (''TransactionId'', JStr ''T-1'')]"
  have u: "updates ?p ?b = ?b'"
    by (simp add: updates_def Let_def paid_request_fields paidStates_def nullish_or_def
        example_booking_def)
  have 1: "hubtel_webhook (example_db [?b]) (paid_request ''K1'') = (Response 200 BodyOk, example_db [?b'])"
    using hubtel_webhook_matched[of "paid_request ''K1''" ?p "''K1''" "example_db [?b]" ?b]
    by (simp add: paid_request_fields held_by_other_def u)
  have h: "fst (hubtel_webhook (example_db [?b]) (paid_request ''K1'')) = Response 200 BodyOk \<and>
    req_method (paid_request ''K1'') \<noteq> ''OPTIONS'' \<and> req_body (paid_request ''K1'') = Some ?p \<and>
    isPaid (extract_status ?p) \<and> extract_reference ?p = JStr ''K1'' \<and> ''K1'' \<noteq> []"
    by (simp add: 1 paid_request_fields paidStates_def)
  note t = webhook_redelivery[of "example_db [?b]" "paid_request ''K1''" ?p "''K1''"]
  from t have 2: "hubtel_webhook (snd (hubtel_webhook (example_db [?b]) (paid_request ''K1'')))
      (paid_request ''K1'') = hubtel_webhook (example_db [?b]) (paid_request ''K1'')"
    by blast
  from t h have "fst (hubtel_webhook (snd (hubtel_webhook (example_db [?b]) (paid_request ''K1'')))
      (paid_request ''K1'')) = Response 200 BodyOk"
    by blast
  with 1 2 show ?thesis by simp
qed

text \<open>
  Claim C8 holds for every body but one: a body that is the JSON value \<open>null\<close>.
  No reference can be taken from it, yet the handler answers 500, because reading
  \<open>payload.status\<close> throws and the outer \<open>catch\<close> builds the response.  The
  storage is unchanged.  (For every other request without a reference the lemma
  \<open>hubtel_webhook_no_reference\<close> above gives 200 and an unchanged storage; so does
  \<open>hubtel_webhook_unmatched\<close> for a reference that is the id of no booking, in this
  model, which has no syntax of UUIDs.)
\<close>

theorem webhook_null_body:
  "hubtel_webhook d \<lparr>req_method = ''POST'', req_body = Some JNull\<rparr> =
     (Response 500 (BodyError TypeError), d)
   \<and> hubtel_webhook_sms d \<lparr>req_method = ''POST'', req_body = Some JNull\<rparr> =
     (Response 500 (BodyError TypeError), d, [])"
  by (simp add: hubtel_webhook_def hubtel_webhook_sms_def)

text \<open>
  Claim C9, as stated, fails.  The state below is reached by booking seat 5, cancelling
  that booking, booking seat 5 again and marking the second booking paid.  A paid
  payload for the cancelled booking is rejected by the unique index: the handler answers
  500 and the booking stays cancelled.
\<close>

theorem webhook_cancelled_blocked_counterexample:
  "reachable (example_db [example_booking ''K1'' ''B'' 5 ''cancelled'',
                          example_booking ''K2'' ''B'' 5 ''paid'']) \<and>
   b_status (example_booking ''K1'' ''B'' 5 ''cancelled'') = ''cancelled'' \<and>
   hubtel_webhook (example_db [example_booking ''K1'' ''B'' 5 ''cancelled'',
                               example_booking ''K2'' ''B'' 5 ''paid'']) (paid_request ''K1'') =
     (Response 500 (BodyError (StorageFailure (UniqueViolation ''idx_unique_active_booking''))),
      example_db [example_booking ''K1'' ''B'' 5 ''cancelled'',
                  example_booking ''K2'' ''B'' 5 ''paid''])"
proof -
  let ?d = "example_db [example_booking ''K1'' ''B'' 5 ''cancelled'',
                        example_booking ''K2'' ''B'' 5 ''paid'']"
  have "hubtel_webhook ?d (paid_request ''K1'') =
     (Response 500 (BodyError (StorageFailure (UniqueViolation ''idx_unique_active_booking''))), ?d)"
    using hubtel_webhook_matched[of "paid_request ''K1''" _ "''K1''" ?d
        "example_booking ''K1'' ''B'' 5 ''cancelled''", OF paid_request_fields(1,2)]
    by (simp add: paid_request_fields updates_fields in_index_def held_by_other_def paidStates_def)
  then show ?thesis
    using reachable_cancelled_then_paid by simp
qed

text \<open>
  Claim C9, amended.  In a bookings table kept by the two indexes, for a cancelled
  booking and a request with a paid status whose reference is the id of that booking:
  when no other pending or paid booking holds the same bus and seat number, the handler
  answers 200 and the booking becomes paid (the update filters on the id only, not on
  the current status), all other rows staying as they were; when another pending or paid
  booking holds them, the storage rejects the update, the handler answers 500 and nothing
  changes.
\<close>

theorem webhook_cancelled_to_paid:
  "ledger_ok (bookings d) \<and> b \<in> set (bookings d) \<and> b_status b = ''cancelled'' \<and> b_id b \<noteq> [] \<and>
   req_method req \<noteq> ''OPTIONS'' \<and> req_body req = Some payload \<and>
   extract_reference payload = JStr (b_id b) \<and> isPaid (extract_status payload) \<Longrightarrow>
   (\<not> held_by_other d b \<longrightarrow>
      fst (hubtel_webhook d req) = Response 200 BodyOk \<and>
      bookings (snd (hubtel_webhook d req)) =
        map (\<lambda>x. if x = b then updates payload b else x) (bookings d) \<and>
      updates payload b \<in> set (bookings (snd (hubtel_webhook d req))) \<and>
      b_status (updates payload b) = ''paid'') \<and>
   (held_by_other d b \<longrightarrow>
      hubtel_webhook d req =
        (Response 500 (BodyError (StorageFailure (UniqueViolation ''idx_unique_active_booking''))), d))"
proof -
  assume h: "ledger_ok (bookings d) \<and> b \<in> set (bookings d) \<and> b_status b = ''cancelled'' \<and> b_id b \<noteq> [] \<and>
   req_method req \<noteq> ''OPTIONS'' \<and> req_body req = Some payload \<and>
   extract_reference payload = JStr (b_id b) \<and> isPaid (extract_status payload)"
  then have dist: "distinct (map b_id (bookings d))" by (simp add: ledger_ok_def)
  then have inj: "inj_on b_id (set (bookings d))" by (simp add: distinct_map)
  have w: "hubtel_webhook d req =
     (if in_index (updates payload b) \<and> held_by_other d b
      then (Response 500 (BodyError (StorageFailure (UniqueViolation ''idx_unique_active_booking''))), d)
      else (Response 200 BodyOk,
            d\<lparr>bookings := map (\<lambda>x. if b_id x = b_id b then updates payload x else x) (bookings d)\<rparr>))"
    using h dist by (intro hubtel_webhook_matched) simp_all
  have paid: "in_index (updates payload b)" "b_status (updates payload b) = ''paid''"
    using h by (simp_all add: in_index_def updates_fields)
  have m: "map (\<lambda>x. if b_id x = b_id b then updates payload x else x) (bookings d) =
           map (\<lambda>x. if x = b then updates payload b else x) (bookings d)"
    using inj h by (intro map_cong) (auto dest: inj_onD)
  have "updates payload b \<in> set (map (\<lambda>x. if x = b then updates payload b else x) (bookings d))"
    using h by (auto simp: image_iff)
  then show ?thesis
    using w paid m by simp
qed

theorem webhook_cancelled_to_paid_witness:
  "hubtel_webhook (example_db [example_booking ''K1'' ''B'' 5 ''cancelled'']) (paid_request ''K1'') =
     (Response 200 BodyOk,
      example_db [(example_booking ''K1'' ''B'' 5 ''paid'')\<lparr>b_payment_reference := JStr ''T-1''\<rparr>])"
proof -
  let ?b = "example_booking ''K1'' ''B'' 5 ''cancelled''"
  let ?d = "example_db [?b]"
  let ?p = "JObject [(''Status'', JStr ''Success''), (''ClientReference'', JStr ''K1''),
                    (''TransactionId'', JStr ''T-1'')]"
  have h: "ledger_ok (bookings ?d) \<and> ?b \<in> set (bookings ?d) \<and> b_status ?b = ''cancelled'' \<and>
     b_id ?b \<noteq> [] \<and> req_method (paid_request ''K1'') \<noteq> ''OPTIONS'' \<and>
     req_body (paid_request ''K1'') = Some ?p \<and> extract_reference ?p = JStr (b_id ?b) \<and>
     isPaid (extract_status ?p)"
    by (simp add: paid_request_fields ledger_ok_def index_conflict_def paidStates_def in_index_def)
  have nh: "\<not> held_by_other ?d ?b"
    by (simp add: held_by_other_def)
  have u: "updates ?p ?b = (example_booking ''K1'' ''B'' 5 ''paid'')\<lparr>b_payment_reference := JStr ''T-1''\<rparr>"
    by (simp add: updates_def Let_def paid_request_fields paidStates_def nullish_or_def
        example_booking_def)
  from webhook_cancelled_to_paid[OF h] nh
  have r: "fst (hubtel_webhook ?d (paid_request ''K1'')) = Response 200 BodyOk"
    and b: "bookings (snd (hubtel_webhook ?d (paid_request ''K1''))) =
        map (\<lambda>x. if x = ?b then updates ?p ?b else x) (bookings ?d)"
    by blast+
  have o: "snd (hubtel_webhook ?d (paid_request ''K1'')) =
           example_db (bookings (snd (hubtel_webhook ?d (paid_request ''K1''))))"
    using hubtel_webhook_matched[of "paid_request ''K1''" ?p "''K1''" ?d ?b]
    by (simp add: paid_request_fields split: if_splits)
  show ?thesis
    using r b o u by (simp add: prod_eq_iff)
qed

section \<open>The confirmation SMS\<close>

lemma hubtel_webhook_sms_same:
  "fst (hubtel_webhook_sms d req) = fst (hubtel_webhook d req) \<and>
   fst (snd (hubtel_webhook_sms d req)) = snd (hubtel_webhook d req)"
  by (simp add: hubtel_webhook_def hubtel_webhook_sms_def Let_def
      split: sum.splits option.splits prod.splits)

lemma hubtel_webhook_sms_tasks_le: "length (snd (snd (hubtel_webhook_sms d req))) \<le> 1"
  by (simp add: hubtel_webhook_sms_def Let_def split: sum.splits option.splits prod.splits)

lemma hubtel_webhook_sms_not_paid:
  "\<not> isPaid (extract_status (case req_body req of None \<Rightarrow> JObject [] | Some v \<Rightarrow> v)) \<Longrightarrow>
   snd (snd (hubtel_webhook_sms d req)) = []"
  by (simp add: hubtel_webhook_sms_def Let_def split: sum.splits option.splits prod.splits)

lemma hubtel_webhook_sms_error:
  "fst (hubtel_webhook_sms d req) \<noteq> Response 200 BodyOk \<Longrightarrow> snd (snd (hubtel_webhook_sms d req)) = []"
  by (simp add: hubtel_webhook_sms_def Let_def split: sum.splits option.splits prod.splits if_splits)

lemma hubtel_webhook_sms_matched:
  assumes "req_method req \<noteq> ''OPTIONS''" "req_body req = Some payload"
    "extract_reference payload = JStr r" "r \<noteq> []"
    "distinct (map b_id (bookings d))" "b \<in> set (bookings d)" "b_id b = r"
    "\<not> (in_index (updates payload b) \<and> held_by_other d b)"
  shows "snd (snd (hubtel_webhook_sms d req)) =
           (if isPaid (extract_status payload) then [(r, updates payload b)] else [])"
proof -
  have t: "truthy (extract_reference payload)" using assms(3,4) by simp
  from extract_reference_object[OF t] obtain kvs where k: "payload = JObject kvs" ..
  have u: "update_by_reference d (extract_reference payload) (updates payload) =
      Inr (d\<lparr>bookings := map (\<lambda>x. if b_id x = r then updates payload x else x) (bookings d)\<rparr>,
           [updates payload b])"
    using assms(8)
    by (simp add: update_by_reference_def assms(3) update_bookings_matched[OF assms(5,6,7)]
        index_conflict_held held_by_other_updates)
  show ?thesis
    using assms(1,2) t u k by (simp add: hubtel_webhook_sms_def Let_def updates_id assms(7))
qed

lemma length_sms_content: "length (sms_content d i u) \<le> 300"
  by (simp add: sms_content_def Let_def)

lemma sms_content_full:
  assumes "name_of (pickup_points d) (b_pickup_point_id u) \<noteq> []"
    "name_of (destinations d) (b_destination_id u) \<noteq> []" "b_seat_number u \<noteq> 0"
  shows "sms_content d i u =
     take 300 (''ATT Transport: Payment confirmed. '' @
               name_of (pickup_points d) (b_pickup_point_id u) @ '' -> '' @
               name_of (destinations d) (b_destination_id u) @ ''. Seat '' @
               decimal_int (b_seat_number u) @ ''. GHS '' @ toFixed2 (b_amount u) @
               ''. Ref: '' @ take 8 i @ ''. Show SMS at boarding.'')"
  using assms by (simp add: sms_content_def Let_def nonempty_def)

lemma sendPaidConfirmationSms_request:
  assumes "normalizeGhanaMsisdn (b_phone u) = Some to" "to \<noteq> []"
    "env_or (HUBTEL_SMS_CLIENT_ID e) (HUBTEL_CLIENT_ID e) [] \<noteq> []"
    "env_or (HUBTEL_SMS_CLIENT_SECRET e) (HUBTEL_CLIENT_SECRET e) [] \<noteq> []"
  shows "fst (sendPaidConfirmationSms d e g i (Some u)) =
     Some \<lparr>sms_From = env_or (HUBTEL_SMS_FROM e) None ''ATTTransport'', sms_To = to,
           sms_Content = sms_content d i u\<rparr>"
  using assms by (simp add: sendPaidConfirmationSms_def sendSmsViaHubtel_def Let_def)

text \<open>
  Claim C7, as stated, fails: not every transition to paid sends an SMS.  The button
  "Mark Paid" of the bookings page turns a pending booking paid through
  \<open>updateBookingStatus\<close>, which schedules no SMS task.
\<close>

theorem admin_paid_no_sms_counterexample:
  "''paid'' \<in> set (offered_actions ''pending'') \<and>
   step (example_db [example_booking ''K1'' ''B'' 5 ''pending'']) (AdminUpdate ''K1'' ''paid'') =
     example_db [example_booking ''K1'' ''B'' 5 ''paid''] \<and>
   sms_tasks (example_db [example_booking ''K1'' ''B'' 5 ''pending'']) (AdminUpdate ''K1'' ''paid'') = []"
proof -
  have "step (example_db [example_booking ''K1'' ''B'' 5 ''pending'']) (AdminUpdate ''K1'' ''paid'') =
     example_db (map (\<lambda>x. if b_id x = ''K1'' then x\<lparr>b_status := ''paid''\<rparr> else x)
                   [example_booking ''K1'' ''B'' 5 ''pending''])"
    by (rule step_admin_example[where b = "example_booking ''K1'' ''B'' 5 ''pending''"])
       (simp_all add: index_conflict_def)
  then show ?thesis by (simp add: offered_actions_def)
qed

text \<open>
  Claim C7, amended.  The webhook handler with the SMS code answers as the handler
  without it and leaves the same storage, whatever the SMS credentials are and whatever
  the SMS gateway does (accept, reject, throw).  It schedules at most one SMS task per
  request, none when it answers anything but 200 and none when the status is not a paid
  one; a status update made from the bookings page schedules none.  When a request with a
  paid status updates a booking, exactly one task is scheduled, for the updated row, which
  by then is in the bookings table with status paid and carries the passenger's phone.
  A task makes one request to the SMS gateway when the phone normalises to a non-empty
  number and the credentials are set: it is addressed to the normalised number and its
  text, at most 300 characters long, is, when the pickup and destination names are known
  and the seat number is not zero, the first 300 characters of the confirmation line
  with the route, the seat, the amount and the first eight characters of the booking id.
\<close>

theorem paid_sms_dispatch:
  "fst (serve d e g req) = fst (hubtel_webhook d req) \<and>
   fst (snd (serve d e g req)) = snd (hubtel_webhook d req) \<and>
   length (snd (snd (serve d e g req))) = length (sms_tasks d (Webhook req)) \<and>
   length (sms_tasks d (Webhook req)) \<le> 1 \<and>
   sms_tasks d (AdminUpdate i st) = [] \<and>
   (fst (hubtel_webhook d req) \<noteq> Response 200 BodyOk \<longrightarrow> sms_tasks d (Webhook req) = []) \<and>
   (ledger_ok (bookings d) \<and> req_method req \<noteq> ''OPTIONS'' \<and> req_body req = Some payload \<and>
    extract_reference payload = JStr r \<and> r \<noteq> [] \<and> b \<in> set (bookings d) \<and> b_id b = r \<and>
    \<not> held_by_other d b \<longrightarrow>
      (isPaid (extract_status payload) \<longrightarrow>
         sms_tasks d (Webhook req) = [(r, updates payload b)] \<and>
         snd (snd (serve d e g req)) =
           [sendPaidConfirmationSms (snd (hubtel_webhook d req)) e g r (Some (updates payload b))] \<and>
         updates payload b \<in> set (bookings (snd (hubtel_webhook d req))) \<and>
         b_status (updates payload b) = ''paid'' \<and>
         b_phone (updates payload b) = b_phone b) \<and>
      (\<not> isPaid (extract_status payload) \<longrightarrow> sms_tasks d (Webhook req) = [])) \<and>
   (normalizeGhanaMsisdn (b_phone u) = Some to \<and> to \<noteq> [] \<and>
    env_or (HUBTEL_SMS_CLIENT_ID e) (HUBTEL_CLIENT_ID e) [] \<noteq> [] \<and>
    env_or (HUBTEL_SMS_CLIENT_SECRET e) (HUBTEL_CLIENT_SECRET e) [] \<noteq> [] \<longrightarrow>
      fst (sendPaidConfirmationSms d' e g i (Some u)) =
        Some \<lparr>sms_From = env_or (HUBTEL_SMS_FROM e) None ''ATTTransport'', sms_To = to,
              sms_Content = sms_content d' i u\<rparr>) \<and>
   length (sms_content d' i u) \<le> 300 \<and>
   (name_of (pickup_points d') (b_pickup_point_id u) \<noteq> [] \<and>
    name_of (destinations d') (b_destination_id u) \<noteq> [] \<and> b_seat_number u \<noteq> 0 \<longrightarrow>
      sms_content d' i u =
        take 300 (''ATT Transport: Payment confirmed. '' @
                  name_of (pickup_points d') (b_pickup_point_id u) @ '' -> '' @
                  name_of (destinations d') (b_destination_id u) @ ''. Seat '' @
                  decimal_int (b_seat_number u) @ ''. GHS '' @ toFixed2 (b_amount u) @
                  ''. Ref: '' @ take 8 i @ ''. Show SMS at boarding.''))"
proof (intro conjI impI)
  obtain resp d1 tasks where hw: "hubtel_webhook_sms d req = (resp, d1, tasks)"
    by (cases "hubtel_webhook_sms d req") auto
  note same = hubtel_webhook_sms_same[of d req]
  show "fst (serve d e g req) = fst (hubtel_webhook d req)"
    using same by (simp add: serve_def hw)
  show "fst (snd (serve d e g req)) = snd (hubtel_webhook d req)"
    using same by (simp add: serve_def hw)
  show "length (snd (snd (serve d e g req))) = length (sms_tasks d (Webhook req))"
    by (simp add: serve_def hw)
  show "length (sms_tasks d (Webhook req)) \<le> 1"
    using hubtel_webhook_sms_tasks_le[of d req] by simp
  show "sms_tasks d (AdminUpdate i st) = []" by simp
  show "sms_tasks d (Webhook req) = []" if "fst (hubtel_webhook d req) \<noteq> Response 200 BodyOk"
    using that same hubtel_webhook_sms_error[of d req] by simp
next
  assume h: "ledger_ok (bookings d) \<and> req_method req \<noteq> ''OPTIONS'' \<and> req_body req = Some payload \<and>
    extract_reference payload = JStr r \<and> r \<noteq> [] \<and> b \<in> set (bookings d) \<and> b_id b = r \<and>
    \<not> held_by_other d b"
  then have dist: "distinct (map b_id (bookings d))" by (simp add: ledger_ok_def)
  have tasks: "snd (snd (hubtel_webhook_sms d req)) =
           (if isPaid (extract_status payload) then [(r, updates payload b)] else [])"
    using h dist by (intro hubtel_webhook_sms_matched) simp_all
  have w: "hubtel_webhook d req = (Response 200 BodyOk,
            d\<lparr>bookings := map (\<lambda>x. if b_id x = r then updates payload x else x) (bookings d)\<rparr>)"
    using hubtel_webhook_matched[of req payload r d b] h dist by simp
  {
    assume p: "isPaid (extract_status payload)"
    show "sms_tasks d (Webhook req) = [(r, updates payload b)]"
      using tasks p by simp
    obtain resp d1 ts where hw: "hubtel_webhook_sms d req = (resp, d1, ts)"
      by (cases "hubtel_webhook_sms d req") auto
    have "d1 = snd (hubtel_webhook d req)" "ts = [(r, updates payload b)]"
      using hubtel_webhook_sms_same[of d req] tasks p hw by simp_all
    then show "snd (snd (serve d e g req)) =
           [sendPaidConfirmationSms (snd (hubtel_webhook d req)) e g r (Some (updates payload b))]"
      by (simp add: serve_def hw)
    show "updates payload b \<in> set (bookings (snd (hubtel_webhook d req)))"
      using h by (auto simp: w image_iff intro!: bexI[of _ b])
    show "b_status (updates payload b) = ''paid''"
      using p by (simp add: updates_fields)
    show "b_phone (updates payload b) = b_phone b"
      by (simp add: updates_def Let_def)
  }
  show "sms_tasks d (Webhook req) = []" if "\<not> isPaid (extract_status payload)"
    using tasks that by simp
next
  assume "normalizeGhanaMsisdn (b_phone u) = Some to \<and> to \<noteq> [] \<and>
    env_or (HUBTEL_SMS_CLIENT_ID e) (HUBTEL_CLIENT_ID e) [] \<noteq> [] \<and>
    env_or (HUBTEL_SMS_CLIENT_SECRET e) (HUBTEL_CLIENT_SECRET e) [] \<noteq> []"
  then show "fst (sendPaidConfirmationSms d' e g i (Some u)) =
        Some \<lparr>sms_From = env_or (HUBTEL_SMS_FROM e) None ''ATTTransport'', sms_To = to,
              sms_Content = sms_content d' i u\<rparr>"
    by (intro sendPaidConfirmationSms_request) simp_all
next
  show "length (sms_content d' i u) \<le> 300" by (rule length_sms_content)
next
  assume "name_of (pickup_points d') (b_pickup_point_id u) \<noteq> [] \<and>
    name_of (destinations d') (b_destination_id u) \<noteq> [] \<and> b_seat_number u \<noteq> 0"
  then show "sms_content d' i u =
        take 300 (''ATT Transport: Payment confirmed. '' @
                  name_of (pickup_points d') (b_pickup_point_id u) @ '' -> '' @
                  name_of (destinations d') (b_destination_id u) @ ''. Seat '' @
                  decimal_int (b_seat_number u) @ ''. GHS '' @ toFixed2 (b_amount u) @
                  ''. Ref: '' @ take 8 i @ ''. Show SMS at boarding.'')"
    by (intro sms_content_full) simp_all
qed

theorem paid_sms_dispatch_witness:
  "serve (example_db [example_booking ''K1'' ''B'' 5 ''pending'']) example_env Throws
         (paid_request ''K1'') =
     (Response 200 BodyOk,
      example_db [(example_booking ''K1'' ''B'' 5 ''paid'')\<lparr>b_payment_reference := JStr ''T-1''\<rparr>],
      [(Some \<lparr>sms_From = ''ATTTransport'', sms_To = ''233241234567'',
              sms_Content = ''ATT Transport: Payment confirmed. Main Campus -> Kumasi. '' @
                            ''Seat 5. GHS 80.00. Ref: K1. Show SMS at boarding.''\<rparr>,
        SmsException)])"
proof -
  let ?b = "example_booking ''K1'' ''B'' 5 ''pending''"
  let ?b' = "(example_booking ''K1'' ''B'' 5 ''paid'')\<lparr>b_payment_reference := JStr ''T-1''\<rparr>"
  let ?d = "example_db [?b]"
  let ?d' = "example_db [?b']"
  let ?req = "paid_request ''K1''"
  let ?p = "JObject [(''Status'', JStr ''Success''), (''ClientReference'', JStr ''K1''),
                    (''TransactionId'', JStr ''T-1'')]"
  let ?to = "''233241234567''"
  have u: "updates ?p ?b = ?b'"
    by (simp add: updates_def Let_def paid_request_fields paidStates_def nullish_or_def
        example_booking_def)
  have w: "hubtel_webhook ?d ?req = (Response 200 BodyOk, ?d')"
    using hubtel_webhook_matched[of ?req ?p "''K1''" ?d ?b]
    by (simp add: paid_request_fields held_by_other_def u)
  have h1: "ledger_ok (bookings ?d) \<and> req_method ?req \<noteq> ''OPTIONS'' \<and> req_body ?req = Some ?p \<and>
    extract_reference ?p = JStr ''K1'' \<and> ''K1'' \<noteq> [] \<and> ?b \<in> set (bookings ?d) \<and> b_id ?b = ''K1'' \<and>
    \<not> held_by_other ?d ?b"
    by (simp add: paid_request_fields ledger_ok_def index_conflict_def held_by_other_def)
  have h2: "isPaid (extract_status ?p)"
    by (simp add: paid_request_fields paidStates_def)
  have h3: "normalizeGhanaMsisdn (b_phone ?b') = Some ?to \<and> ?to \<noteq> [] \<and>
    env_or (HUBTEL_SMS_CLIENT_ID example_env) (HUBTEL_CLIENT_ID example_env) [] \<noteq> [] \<and>
    env_or (HUBTEL_SMS_CLIENT_SECRET example_env) (HUBTEL_CLIENT_SECRET example_env) [] \<noteq> []"
    by (simp add: normalizeGhanaMsisdn_def startsWith_def example_booking_def example_env_def
        env_or_def Let_def)
  have h4: "name_of (pickup_points ?d') (b_pickup_point_id ?b') \<noteq> [] \<and>
    name_of (destinations ?d') (b_destination_id ?b') \<noteq> [] \<and> b_seat_number ?b' \<noteq> 0"
    by (simp add: name_of_def example_db_def example_booking_def)
  note t = paid_sms_dispatch[of ?d example_env Throws ?req "''K1''" "''paid''" ?p "''K1''" ?b ?b' ?to ?d']
  from t have r1: "fst (serve ?d example_env Throws ?req) = Response 200 BodyOk"
    and r2: "fst (snd (serve ?d example_env Throws ?req)) = ?d'"
    by (simp_all add: w)
  from t h1 h2 have r3: "snd (snd (serve ?d example_env Throws ?req)) =
      [sendPaidConfirmationSms ?d' example_env Throws ''K1'' (Some ?b')]"
    by (simp add: w u)
  from t h3 have r4: "fst (sendPaidConfirmationSms ?d' example_env Throws ''K1'' (Some ?b')) =
      Some \<lparr>sms_From = env_or (HUBTEL_SMS_FROM example_env) None ''ATTTransport'', sms_To = ?to,
            sms_Content = sms_content ?d' ''K1'' ?b'\<rparr>"
    by blast
  from t h4 have r5: "sms_content ?d' ''K1'' ?b' =
        take 300 (''ATT Transport: Payment confirmed. '' @
                  name_of (pickup_points ?d') (b_pickup_point_id ?b') @ '' -> '' @
                  name_of (destinations ?d') (b_destination_id ?b') @ ''. Seat '' @
                  decimal_int (b_seat_number ?b') @ ''. GHS '' @ toFixed2 (b_amount ?b') @
                  ''. Ref: '' @ take 8 ''K1'' @ ''. Show SMS at boarding.'')"
    by blast
  have r6: "snd (sendPaidConfirmationSms ?d' example_env Throws ''K1'' (Some ?b')) = SmsException"
    using h3 by (simp add: sendPaidConfirmationSms_def sendSmsViaHubtel_def Let_def)
  have c: "sms_content ?d' ''K1'' ?b' =
      ''ATT Transport: Payment confirmed. Main Campus -> Kumasi. '' @
      ''Seat 5. GHS 80.00. Ref: K1. Show SMS at boarding.''"
    unfolding r5
    by (simp add: name_of_def example_db_def example_booking_def decimal_int_def decimal_nat_def
        decimal_acc.simps digit_def toFixed2_def)
  have f: "env_or (HUBTEL_SMS_FROM example_env) None ''ATTTransport'' = ''ATTTransport''"
    by (simp add: env_or_def example_env_def)
  have "sendPaidConfirmationSms ?d' example_env Throws ''K1'' (Some ?b') =
      (Some \<lparr>sms_From = ''ATTTransport'', sms_To = ?to,
             sms_Content = ''ATT Transport: Payment confirmed. Main Campus -> Kumasi. '' @
                           ''Seat 5. GHS 80.00. Ref: K1. Show SMS at boarding.''\<rparr>, SmsException)"
    using r4 r6 unfolding c f by (simp add: prod_eq_iff)
  with r1 r2 r3 show ?thesis
    by (simp add: prod_eq_iff)
qed

end
